theory Spec2Isabelle
  imports Complex_Main
begin

section \<open>The timeline builder of the solar system catalog loader (solarsys.cpp)\<close>

text \<open>
  The development embeds \<^verbatim>\<open>GetOrbitBarycenter\<close>, \<^verbatim>\<open>CreateTimelinePhase\<close>,
  \<^verbatim>\<open>CreateTimelineFromArray\<close>, \<^verbatim>\<open>isFrameCircular\<close> and \<^verbatim>\<open>CreateTimeline\<close> of
  \<^verbatim>\<open>src/celengine/solarsys.cpp\<close>. Pointers to stars and bodies are addresses; what the
  functions read through them is looked up in the \<open>Universe\<close>, which
  \<^verbatim>\<open>GetOrbitBarycenter\<close> takes as one more argument for that. A catalog entry (a
  \<^verbatim>\<open>Hash\<close>) is given by what the accessors and parsers called on it return. The C++
  functions return a pointer or a flag and write a message to the log; here every
  \<^verbatim>\<open>return NULL\<close> and \<^verbatim>\<open>return false\<close> is a branch that yields the error it logs.
  The parameters \<^verbatim>\<open>path\<close> (handed on to the orbit and rotation parsers only) and the
  phase's weak back reference to its body play no part and are left out.
\<close>

subsection \<open>Data\<close>

type_synonym StarPtr = nat
type_synonym BodyPtr = nat

text \<open>A \<^verbatim>\<open>Selection\<close>; \<open>body_of\<close> and \<open>star_of\<close> are its accessors \<^verbatim>\<open>body()\<close> and
  \<^verbatim>\<open>star()\<close>, which give a null pointer for a selection of another kind.\<close>

datatype Selection = Selection_empty | Selection_body BodyPtr | Selection_star StarPtr

fun body_of :: "Selection \<Rightarrow> BodyPtr option" where
  "body_of (Selection_body b) = Some b"
| "body_of _ = None"

fun star_of :: "Selection \<Rightarrow> StarPtr option" where
  "star_of (Selection_star s) = Some s"
| "star_of _ = None"

datatype Disposition = AddObject | ReplaceObject | ModifyObject

datatype FrameType = PositionFrame | OrientationFrame

text \<open>Times are doubles that are only copied and compared: a Julian date or one of the
  two infinities.\<close>

datatype JulianDate = NegInfinity | JD real | Infinity

text \<open>A frame and an orbit are objects known by their address (\<open>frameId\<close>, \<open>orbitId\<close>),
  with what the builder reads of them: the center of the frame, the period of the
  orbit. The rotation models are the fixed orientation \<^verbatim>\<open>ConstantOrientation(Quatd(1.0))\<close>,
  the default model for a period and the models read from a catalog entry.\<close>

record ReferenceFrame =
  frameId :: nat
  getCenter :: Selection

record Orbit =
  orbitId :: nat
  getPeriod :: real

datatype RotationModel =
    ConstantOrientation
  | DefaultRotationModel real
  | CatalogRotationModel nat

record TimelinePhase =
  startTime :: JulianDate
  endTime :: JulianDate
  orbitFrame :: ReferenceFrame
  orbit :: Orbit
  bodyFrame :: ReferenceFrame
  rotationModel :: RotationModel

text \<open>Modelled from the spec: \<^verbatim>\<open>Timeline\<close> and \<^verbatim>\<open>Body\<close> (timeline, body) are not among
  the sources. A timeline is an "ordered sequence of TimelinePhase, index 0..n-1" with the
  queries "phase count, phase at index"; a body "owns exactly one Timeline", which
  \<^verbatim>\<open>setTimeline\<close> replaces. Of a body, the name and the timeline are kept.\<close>

type_synonym Timeline = "TimelinePhase list"

definition phaseCount :: "Timeline \<Rightarrow> nat" where
  "phaseCount timeline = length timeline"

definition getPhase :: "Timeline \<Rightarrow> nat \<Rightarrow> TimelinePhase" where
  "getPhase timeline n = timeline ! n"

definition appendPhase :: "Timeline \<Rightarrow> TimelinePhase \<Rightarrow> Timeline" where
  "appendPhase timeline phase = timeline @ [phase]"

record Body =
  getName :: string
  getTimeline :: Timeline

definition setTimeline :: "Body \<Rightarrow> Timeline \<Rightarrow> Body" where
  "setTimeline body newTimeline = body\<lparr>getTimeline := newTimeline\<rparr>"

text \<open>A planetary system belongs to a star: the constructor of \<^verbatim>\<open>SolarSystem\<close> makes
  the planets of a star with \<^verbatim>\<open>new PlanetarySystem(star)\<close>, and the loader makes the
  satellites of a body that is itself in such a system. The primary body is null for the
  planets of a star.\<close>

record PlanetarySystem =
  getStar :: StarPtr
  getPrimaryBody :: "BodyPtr option"

record FrameTree =
  getDefaultReferenceFrame :: ReferenceFrame

text \<open>What the builder reads of the object graph: the star of the system a body belongs
  to (\<^verbatim>\<open>body->getSystem()->getStar()\<close>), the frame tree of a body
  (\<^verbatim>\<open>getOrCreateFrameTree\<close>) and of a star's solar system (found or created), and the
  nesting depth \<^verbatim>\<open>frame.nestingDepth(maxDepth, frameType)\<close> of a frame.\<close>

record Universe =
  bodySystemStar :: "BodyPtr \<Rightarrow> StarPtr"
  bodyFrameTree :: "BodyPtr \<Rightarrow> FrameTree"
  solarSystemFrameTree :: "StarPtr \<Rightarrow> FrameTree"
  nestingDepth :: "ReferenceFrame \<Rightarrow> nat \<Rightarrow> FrameType \<Rightarrow> nat"

text \<open>The value stored under \<^verbatim>\<open>OrbitFrame\<close> or \<^verbatim>\<open>BodyFrame\<close>, given by what
  \<^verbatim>\<open>CreateReferenceFrame\<close> makes of it.\<close>

datatype FrameValue = FrameDefinition ReferenceFrame | InvalidFrame

text \<open>A property group. \<open>Beginning\<close> and \<open>Ending\<close> are the dates \<^verbatim>\<open>ParseDate\<close> finds
  under these keys, \<open>OrbitFrame\<close> and \<open>BodyFrame\<close> what \<^verbatim>\<open>getValue\<close> finds,
  \<open>orbitFields\<close> the orbit \<^verbatim>\<open>CreateOrbit\<close> builds from the group for either value of
  \<^verbatim>\<open>usePlanetUnits\<close>, \<open>rotationFields\<close> the rotation model \<^verbatim>\<open>CreateRotationModel\<close> builds
  from it for a synchronous period; \<open>None\<close> is the null pointer.\<close>

record Hash =
  Beginning :: "JulianDate option"
  Ending :: "JulianDate option"
  OrbitFrame :: "FrameValue option"
  BodyFrame :: "FrameValue option"
  orbitFields :: "bool \<Rightarrow> Orbit option"
  rotationFields :: "real \<Rightarrow> RotationModel option"

datatype Value = HashType Hash | ArrayType "Value list" | OtherType

fun getHash :: "Value \<Rightarrow> Hash option" where
  "getHash (HashType h) = Some h"
| "getHash _ = None"

fun getArray :: "Value \<Rightarrow> Value list option" where
  "getArray (ArrayType a) = Some a"
| "getArray _ = None"

text \<open>The property group of a body: the fields above and the value under
  \<^verbatim>\<open>Timeline\<close>.\<close>

record PlanetData = Hash +
  Timeline :: "Value option"

text \<open>For each frame, the references the functions of this file hold: one for each
  frame \<^verbatim>\<open>CreateReferenceFrame\<close> hands over, one for each \<^verbatim>\<open>addRef\<close>, one less for
  each \<^verbatim>\<open>release\<close>. The references a phase takes for itself when it is built, and
  gives back when it is destroyed, are not counted here.\<close>

type_synonym RefCounts = "ReferenceFrame \<Rightarrow> int"

definition addRef :: "RefCounts \<Rightarrow> ReferenceFrame \<Rightarrow> RefCounts" where
  "addRef refs frame = refs(frame := refs frame + 1)"

definition release :: "RefCounts \<Rightarrow> ReferenceFrame \<Rightarrow> RefCounts" where
  "release refs frame = refs(frame := refs frame - 1)"

text \<open>No reference held.\<close>

definition noRefs :: RefCounts where
  "noRefs = (\<lambda>frame. 0)"

datatype PhaseError =
    BeginningNotAllowed
  | EndingRequired
  | OrbitFrameFailed
  | BodyFrameFailed
  | MissingOrbit

datatype ArrayError =
    NotPropertyGroup nat
  | ErrorInPhase nat PhaseError

datatype TimelineError =
    BadOrbitBarycenter
  | TimelineMustBeArray
  | TimelineArrayError ArrayError
  | NoValidOrbit string
  | OrbitFrameNestedTooDeep string
  | BodyFrameNestedTooDeep string
  | AssertionFailure

subsection \<open>Collaborators outside the file\<close>

text \<open>Modelled from the spec: \<^verbatim>\<open>ParseDate\<close> (parseobject) is not among the sources. It
  "attempts to parse a time value, returns whether the field was present and valid";
  the date goes to the reference parameter, which keeps its value otherwise.\<close>

definition ParseDate :: "JulianDate option \<Rightarrow> JulianDate \<Rightarrow> bool \<times> JulianDate" where
  "ParseDate field jd = (case field of Some t \<Rightarrow> (True, t) | None \<Rightarrow> (False, jd))"

text \<open>Modelled from the spec: \<^verbatim>\<open>CreateReferenceFrame\<close> (parseobject) is not among the
  sources. It "resolves a tagged value into a retained ReferenceFrame, or signals
  failure".\<close>

definition CreateReferenceFrame ::
  "RefCounts \<Rightarrow> FrameValue \<Rightarrow> ReferenceFrame option \<times> RefCounts" where
  "CreateReferenceFrame refs frameValue =
     (case frameValue of
        FrameDefinition frame \<Rightarrow> (Some frame, addRef refs frame)
      | InvalidFrame \<Rightarrow> (None, refs))"

text \<open>Modelled from the spec: \<^verbatim>\<open>CreateOrbit\<close> and \<^verbatim>\<open>CreateRotationModel\<close> (parseobject)
  are not among the sources. The first "resolves orbit-defining fields into a retained
  Orbit, or signals failure", the second resolves rotation fields "or returns none if
  absent".\<close>

definition CreateOrbit :: "'a Hash_scheme \<Rightarrow> bool \<Rightarrow> Orbit option" where
  "CreateOrbit planetData usePlanetUnits = orbitFields planetData usePlanetUnits"

definition CreateRotationModel :: "'a Hash_scheme \<Rightarrow> real \<Rightarrow> RotationModel option" where
  "CreateRotationModel planetData syncRotationPeriod =
     rotationFields planetData syncRotationPeriod"

text \<open>Modelled from the spec: \<^verbatim>\<open>CreateDefaultRotationModel\<close> is not among the sources. It
  "always succeeds, produces a uniform synchronous rotation".\<close>

definition CreateDefaultRotationModel :: "real \<Rightarrow> RotationModel" where
  "CreateDefaultRotationModel syncRotationPeriod = DefaultRotationModel syncRotationPeriod"

text \<open>Modelled from the spec: \<^verbatim>\<open>TimelinePhase::CreateTimelinePhase\<close> (timelinephase) is
  not among the sources. It "returns a new immutable phase"; there is "no failure path
  at this layer".\<close>

definition TimelinePhase_CreateTimelinePhase ::
  "JulianDate \<Rightarrow> JulianDate \<Rightarrow> ReferenceFrame \<Rightarrow> Orbit \<Rightarrow> ReferenceFrame \<Rightarrow> RotationModel
     \<Rightarrow> TimelinePhase" where
  "TimelinePhase_CreateTimelinePhase beginning ending orbitFrame1 orbit1 bodyFrame1
       rotationModel1 =
     \<lparr>startTime = beginning, endTime = ending, orbitFrame = orbitFrame1, orbit = orbit1,
      bodyFrame = bodyFrame1, rotationModel = rotationModel1\<rparr>"

text \<open>Modelled from the spec: \<^verbatim>\<open>Body::getOrbitFrame\<close> and \<^verbatim>\<open>Body::getBodyFrame\<close> are not
  among the sources. They are called at time 0 on a body whose timeline of one phase has
  just been installed, where the frames in force are those of that phase.\<close>

definition getOrbitFrame :: "Body \<Rightarrow> ReferenceFrame" where
  "getOrbitFrame body = orbitFrame (hd (getTimeline body))"

definition getBodyFrame :: "Body \<Rightarrow> ReferenceFrame" where
  "getBodyFrame body = bodyFrame (hd (getTimeline body))"

subsection \<open>The functions of solarsys.cpp\<close>

text \<open>Maximum depth permitted for nested frames.\<close>

definition MaxFrameDepth :: nat where
  "MaxFrameDepth = 50"

definition isFrameCircular :: "Universe \<Rightarrow> ReferenceFrame \<Rightarrow> FrameType \<Rightarrow> bool" where
  "isFrameCircular universe frame frameType =
     (nestingDepth universe frame MaxFrameDepth frameType > MaxFrameDepth)"

text \<open>The orbit barycenter of a body: by default the parent of the object. The two
  messages "OrbitBarycenter of name must be in same star system" go to the log; the
  result is the empty selection.\<close>

definition GetOrbitBarycenter :: "Universe \<Rightarrow> string \<Rightarrow> PlanetarySystem \<Rightarrow> Selection" where
  "GetOrbitBarycenter universe name system =
     (let orbitBarycenter =
            (case getPrimaryBody system of
               Some primary \<Rightarrow> Selection_body primary
             | None \<Rightarrow> Selection_star (getStar system))
      in case body_of orbitBarycenter of
           Some b \<Rightarrow>
             if getStar system \<noteq> bodySystemStar universe b then Selection_empty
             else orbitBarycenter
         | None \<Rightarrow>
             (case star_of orbitBarycenter of
                Some s \<Rightarrow>
                  if getStar system \<noteq> s then Selection_empty else orbitBarycenter
              | None \<Rightarrow> orbitBarycenter))"

definition CreateTimelinePhase ::
  "RefCounts \<Rightarrow> Hash \<Rightarrow> ReferenceFrame \<Rightarrow> bool \<Rightarrow> bool \<Rightarrow> JulianDate
     \<Rightarrow> (PhaseError + TimelinePhase) \<times> RefCounts" where
  "CreateTimelinePhase refs phaseData defaultFrame isFirstPhase isLastPhase previousPhaseEnd =
     (let (hasBeginning, beginning) = ParseDate (Beginning phaseData) previousPhaseEnd
      in if \<not> isFirstPhase \<and> hasBeginning then (Inl BeginningNotAllowed, refs)
      else
        let (hasEnding, ending) = ParseDate (Ending phaseData) Infinity
        in if \<not> isLastPhase \<and> \<not> hasEnding then (Inl EndingRequired, refs)
        else
          case (case OrbitFrame phaseData of
                  Some frameValue \<Rightarrow> CreateReferenceFrame refs frameValue
                | None \<Rightarrow> (Some defaultFrame, addRef refs defaultFrame)) of
            (None, refs1) \<Rightarrow> (Inl OrbitFrameFailed, refs1)
          | (Some orbitFrame1, refs1) \<Rightarrow>
              (case (case BodyFrame phaseData of
                       Some bodyFrameValue \<Rightarrow> CreateReferenceFrame refs1 bodyFrameValue
                     | None \<Rightarrow> (Some defaultFrame, addRef refs1 defaultFrame)) of
                 (None, refs2) \<Rightarrow> (Inl BodyFrameFailed, release refs2 orbitFrame1)
               | (Some bodyFrame1, refs2) \<Rightarrow>
                   (let usePlanetUnits = (star_of (getCenter orbitFrame1) \<noteq> None)
                    in case CreateOrbit phaseData usePlanetUnits of
                         None \<Rightarrow>
                           (Inl MissingOrbit,
                            release (release refs2 bodyFrame1) orbitFrame1)
                       | Some orbit1 \<Rightarrow>
                           (let rotationModel1 =
                                  (case CreateRotationModel phaseData (getPeriod orbit1) of
                                     Some r \<Rightarrow> r
                                   | None \<Rightarrow> ConstantOrientation)
                            in (Inr (TimelinePhase_CreateTimelinePhase beginning ending
                                       orbitFrame1 orbit1 bodyFrame1 rotationModel1),
                                refs2)))))"

text \<open>The loop of \<^verbatim>\<open>CreateTimelineFromArray\<close> over the array, at the phase of index \<open>i\<close>
  (\<^verbatim>\<open>iter - timelineArray->begin()\<close>). The elements of an array are objects of their
  own, so the element that is \<^verbatim>\<open>timelineArray->back()\<close> is the one with nothing after
  it.\<close>

fun CreateTimelineFromArray_loop ::
  "RefCounts \<Rightarrow> ReferenceFrame \<Rightarrow> nat \<Rightarrow> JulianDate \<Rightarrow> Timeline \<Rightarrow> Value list
     \<Rightarrow> (ArrayError + Timeline) \<times> RefCounts" where
  "CreateTimelineFromArray_loop refs defaultFrame i previousEnding timeline [] =
     (Inr timeline, refs)"
| "CreateTimelineFromArray_loop refs defaultFrame i previousEnding timeline (v # rest) =
     (case getHash v of
        None \<Rightarrow> (Inl (NotPropertyGroup (i + 1)), refs)
      | Some phaseData \<Rightarrow>
          (let isFirstPhase = (i = 0);
               isLastPhase = (rest = [])
           in case CreateTimelinePhase refs phaseData defaultFrame isFirstPhase isLastPhase
                     previousEnding of
                (Inl e, refs1) \<Rightarrow> (Inl (ErrorInPhase (i + 1) e), refs1)
              | (Inr phase, refs1) \<Rightarrow>
                  CreateTimelineFromArray_loop refs1 defaultFrame (i + 1) (endTime phase)
                    (appendPhase timeline phase) rest))"

definition CreateTimelineFromArray ::
  "RefCounts \<Rightarrow> Value list \<Rightarrow> ReferenceFrame \<Rightarrow> (ArrayError + Timeline) \<times> RefCounts" where
  "CreateTimelineFromArray refs timelineArray defaultFrame =
     CreateTimelineFromArray_loop refs defaultFrame 0 NegInfinity [] timelineArray"

text \<open>The end of \<^verbatim>\<open>CreateTimeline\<close>, from the assertion to the last \<^verbatim>\<open>return true\<close>, as a
  function of the local variables it reads. The timeline is installed first and the
  frames are checked afterwards: the check "can only be done once the timeline has
  actually been set".\<close>

definition CreateTimeline_install ::
  "Universe \<Rightarrow> RefCounts \<Rightarrow> Body \<Rightarrow> Disposition \<Rightarrow> bool \<Rightarrow> bool \<Rightarrow> bool
     \<Rightarrow> JulianDate \<Rightarrow> JulianDate \<Rightarrow> ReferenceFrame \<Rightarrow> Orbit \<Rightarrow> ReferenceFrame \<Rightarrow> RotationModel
     \<Rightarrow> TimelineError option \<times> Body \<times> RefCounts" where
  "CreateTimeline_install universe refs body disposition newOrbitFrame newBodyFrame
       overrideOldTimeline beginning ending orbitFrame2 orbit1 bodyFrame2 rotationModel2 =
     (if \<not> (disposition = ModifyObject \<or> overrideOldTimeline)
      then (Some AssertionFailure, body, refs)
      else if overrideOldTimeline
      then
        (let phase = TimelinePhase_CreateTimelinePhase beginning ending orbitFrame2 orbit1
                       bodyFrame2 rotationModel2;
             timeline = appendPhase [] phase;
             body1 = setTimeline body timeline
         in if newOrbitFrame \<and> isFrameCircular universe (getOrbitFrame body1) PositionFrame
            then (Some (OrbitFrameNestedTooDeep (getName body1)), body1, refs)
            else if newBodyFrame
                 \<and> isFrameCircular universe (getBodyFrame body1) OrientationFrame
            then (Some (BodyFrameNestedTooDeep (getName body1)), body1, refs)
            else (None, body1, refs))
      else (None, body, refs))"

text \<open>The part of \<^verbatim>\<open>CreateTimeline\<close> that builds one phase from the fields of the object
  itself ("the old way"), from the declaration of the local variables to the assertion. A
  numbered name is the value of a local variable after an assignment. The first value of
  \<^verbatim>\<open>orbitsPlanet\<close>, set from the barycenter, is overwritten before it is read. The right
  operand of \<^verbatim>\<open>||\<close> is evaluated only when the left one is false.\<close>

definition CreateTimeline_fields ::
  "Universe \<Rightarrow> RefCounts \<Rightarrow> Body \<Rightarrow> FrameTree \<Rightarrow> PlanetData \<Rightarrow> Disposition
     \<Rightarrow> TimelineError option \<times> Body \<times> RefCounts" where
  "CreateTimeline_fields universe refs body parentFrameTree planetData disposition =
     (let (orbitFrame0, bodyFrame0, orbit0, rotationModel0, beginning0, ending0) =
            (if disposition = ModifyObject \<and> phaseCount (getTimeline body) = 1
             then (let phase = getPhase (getTimeline body) 0
                   in (Some (orbitFrame phase), Some (bodyFrame phase), Some (orbit phase),
                       Some (rotationModel phase), startTime phase, endTime phase))
             else (None, None, None, None, NegInfinity, Infinity));
          (frameA, refs1) =
            (case OrbitFrame planetData of
               Some frameValue \<Rightarrow> CreateReferenceFrame refs frameValue
             | None \<Rightarrow> (None, refs));
          orbitFrame1 = (case frameA of Some frame \<Rightarrow> Some frame | None \<Rightarrow> orbitFrame0);
          newOrbitFrame = (frameA \<noteq> None);
          (frameB, refs2) =
            (case BodyFrame planetData of
               Some bodyFrameValue \<Rightarrow> CreateReferenceFrame refs1 bodyFrameValue
             | None \<Rightarrow> (None, refs1));
          bodyFrame1 = (case frameB of Some frame \<Rightarrow> Some frame | None \<Rightarrow> bodyFrame0);
          newBodyFrame = (frameB \<noteq> None);
          orbitFrame2 =
            (case orbitFrame1 of
               None \<Rightarrow> getDefaultReferenceFrame parentFrameTree
             | Some frame \<Rightarrow> frame);
          bodyFrame2 =
            (case bodyFrame1 of
               None \<Rightarrow> getDefaultReferenceFrame parentFrameTree
             | Some frame \<Rightarrow> frame);
          orbitsPlanet = (if star_of (getCenter orbitFrame2) \<noteq> None then False else True);
          newOrbit = CreateOrbit planetData (\<not> orbitsPlanet)
      in case (case newOrbit of Some new \<Rightarrow> Some new | None \<Rightarrow> orbit0) of
           None \<Rightarrow> (Some (NoValidOrbit (getName body)), body, refs2)
         | Some orbit1 \<Rightarrow>
             (let syncRotationPeriod = getPeriod orbit1;
                  newRotationModel = CreateRotationModel planetData syncRotationPeriod;
                  rotationModel1 =
                    (case newRotationModel of Some new \<Rightarrow> Some new | None \<Rightarrow> rotationModel0);
                  rotationModel2 =
                    (case rotationModel1 of
                       None \<Rightarrow> CreateDefaultRotationModel syncRotationPeriod
                     | Some r \<Rightarrow> r);
                  (hasBeginning, beginning1) = ParseDate (Beginning planetData) beginning0;
                  (hasEnding, ending1) =
                    (if hasBeginning then (False, ending0)
                     else ParseDate (Ending planetData) ending0);
                  overrideOldTimeline =
                    (newOrbitFrame \<or> newBodyFrame \<or> newOrbit \<noteq> None
                     \<or> newRotationModel \<noteq> None \<or> hasBeginning \<or> hasEnding)
              in CreateTimeline_install universe refs2 body disposition newOrbitFrame
                   newBodyFrame overrideOldTimeline beginning1 ending1 orbitFrame2 orbit1
                   bodyFrame2 rotationModel2))"

text \<open>The frame tree \<^verbatim>\<open>CreateTimeline\<close> takes the default frame from: that of the
  barycenter when it is a body, that of the solar system when it is a star; there is none
  for a bad barycenter.\<close>

definition parentFrameTreeOf :: "Universe \<Rightarrow> Selection \<Rightarrow> FrameTree option" where
  "parentFrameTreeOf universe orbitBarycenter =
     (case body_of orbitBarycenter of
        Some b \<Rightarrow> Some (bodyFrameTree universe b)
      | None \<Rightarrow>
          (case star_of orbitBarycenter of
             Some s \<Rightarrow> Some (solarSystemFrameTree universe s)
           | None \<Rightarrow> None))"

text \<open>\<^verbatim>\<open>CreateTimeline\<close>: the result is the error of a \<^verbatim>\<open>return false\<close> (\<open>None\<close> for
  \<^verbatim>\<open>return true\<close>), the body as the call leaves it and the reference counts.\<close>

definition CreateTimeline ::
  "Universe \<Rightarrow> RefCounts \<Rightarrow> Body \<Rightarrow> string \<Rightarrow> PlanetarySystem \<Rightarrow> PlanetData \<Rightarrow> Disposition
     \<Rightarrow> TimelineError option \<times> Body \<times> RefCounts" where
  "CreateTimeline universe refs body name system planetData disposition =
     (let orbitBarycenter = GetOrbitBarycenter universe name system
      in case parentFrameTreeOf universe orbitBarycenter of
           None \<Rightarrow> (Some BadOrbitBarycenter, body, refs)
         | Some parentFrameTree \<Rightarrow>
             (case Timeline planetData of
                Some v \<Rightarrow>
                  (case getArray v of
                     None \<Rightarrow> (Some TimelineMustBeArray, body, refs)
                   | Some timelineArray \<Rightarrow>
                       (case CreateTimelineFromArray refs timelineArray
                               (getDefaultReferenceFrame parentFrameTree) of
                          (Inl e, refs1) \<Rightarrow> (Some (TimelineArrayError e), body, refs1)
                        | (Inr timeline, refs1) \<Rightarrow>
                            (None, setTimeline body timeline, refs1)))
              | None \<Rightarrow>
                  CreateTimeline_fields universe refs body parentFrameTree planetData
                    disposition))"

subsection \<open>Notions used in the statements\<close>

text \<open>A timeline is contiguous when each phase ends where the next one starts.\<close>

fun contiguous :: "Timeline \<Rightarrow> bool" where
  "contiguous (p # q # rest) = (endTime p = startTime q \<and> contiguous (q # rest))"
| "contiguous _ = True"

text \<open>The 1-based index of the phase an error of the array is reported with.\<close>

fun reportedPhase :: "ArrayError \<Rightarrow> nat" where
  "reportedPhase (NotPropertyGroup n) = n"
| "reportedPhase (ErrorInPhase n e) = n"

text \<open>The orbit frame an entry resolves to: the frame its \<^verbatim>\<open>OrbitFrame\<close> field defines,
  and the frame to fall back on when there is no such field or it defines no frame.\<close>

definition resolvedOrbitFrame :: "FrameValue option \<Rightarrow> ReferenceFrame \<Rightarrow> ReferenceFrame" where
  "resolvedOrbitFrame field fallback =
     (case field of Some (FrameDefinition frame) \<Rightarrow> frame | _ \<Rightarrow> fallback)"

text \<open>The nesting failures are the two errors \<^verbatim>\<open>CreateTimeline\<close> returns after the frame
  check.\<close>

fun nestedTooDeep :: "TimelineError \<Rightarrow> bool" where
  "nestedTooDeep (OrbitFrameNestedTooDeep n) = True"
| "nestedTooDeep (BodyFrameNestedTooDeep n) = True"
| "nestedTooDeep _ = False"

text \<open>A frame is centered on a star when the \<^verbatim>\<open>star()\<close> of its center is not null.\<close>

definition centeredOnStar :: "ReferenceFrame \<Rightarrow> bool" where
  "centeredOnStar frame = (star_of (getCenter frame) \<noteq> None)"

text \<open>The frame the fields of a body fall back on when its \<^verbatim>\<open>OrbitFrame\<close> gives none: the
  orbit frame of the existing phase when a timeline of one phase is modified, the default
  frame of the parent frame tree otherwise.\<close>

definition fallbackFrame :: "Disposition \<Rightarrow> Body \<Rightarrow> FrameTree \<Rightarrow> ReferenceFrame" where
  "fallbackFrame disposition body parentFrameTree =
     (if disposition = ModifyObject \<and> phaseCount (getTimeline body) = 1
      then orbitFrame (getPhase (getTimeline body) 0)
      else getDefaultReferenceFrame parentFrameTree)"

text \<open>What a failed construction has done to the body: after a nesting failure the body
  carries a new timeline of one phase, after any other failure it is as it was.\<close>

definition failureEffect :: "Body \<Rightarrow> TimelineError option \<times> Body \<times> RefCounts \<Rightarrow> bool" where
  "failureEffect body r =
     (case fst r of
        None \<Rightarrow> True
      | Some e \<Rightarrow>
          if nestedTooDeep e
          then (case getTimeline (fst (snd r)) of
                  [ph] \<Rightarrow> fst (snd r) = setTimeline body [ph]
                | _ \<Rightarrow> False)
          else fst (snd r) = body)"

text \<open>The error with which the loop rejects phase \<open>j\<close> of an array when it comes to it,
  if it does. Whether \<^verbatim>\<open>CreateTimelinePhase\<close> fails depends neither on the reference counts
  nor on the end of the previous phase, so any will do here.\<close>

definition rejection :: "Value list \<Rightarrow> ReferenceFrame \<Rightarrow> nat \<Rightarrow> ArrayError option" where
  "rejection timelineArray defaultFrame j =
     (case getHash (timelineArray ! j) of
        None \<Rightarrow> Some (NotPropertyGroup (j + 1))
      | Some h \<Rightarrow>
          (case fst (CreateTimelinePhase noRefs h defaultFrame (j = 0)
                       (j + 1 = length timelineArray) NegInfinity) of
             Inl pe \<Rightarrow> Some (ErrorInPhase (j + 1) pe)
           | Inr phase \<Rightarrow> None))"

subsection \<open>A small universe and some catalog entries\<close>

text \<open>One star, number 0, whose solar system has the default frame \<open>sunFrame\<close>; the
  default frame of the frame tree of body \<open>b\<close> is centered on \<open>b\<close>. Frame 99 stands for a
  frame that is part of a cycle: its nesting depth exceeds every bound.\<close>

definition sunFrame :: ReferenceFrame where
  "sunFrame = \<lparr>frameId = 0, getCenter = Selection_star 0\<rparr>"

definition cyclicFrame :: ReferenceFrame where
  "cyclicFrame = \<lparr>frameId = 99, getCenter = Selection_body 7\<rparr>"

definition heliocentric :: ReferenceFrame where
  "heliocentric = \<lparr>frameId = 5, getCenter = Selection_star 0\<rparr>"

definition smallUniverse :: Universe where
  "smallUniverse =
     \<lparr>bodySystemStar = (\<lambda>b. 0),
      bodyFrameTree =
        (\<lambda>b. \<lparr>getDefaultReferenceFrame = \<lparr>frameId = b + 100, getCenter = Selection_body b\<rparr>\<rparr>),
      solarSystemFrameTree = (\<lambda>s. \<lparr>getDefaultReferenceFrame = sunFrame\<rparr>),
      nestingDepth = (\<lambda>frame maxDepth frameType. if frameId frame = 99 then maxDepth + 1 else 1)\<rparr>"

definition planets :: PlanetarySystem where
  "planets = \<lparr>getStar = 0, getPrimaryBody = None\<rparr>"

definition moons :: PlanetarySystem where
  "moons = \<lparr>getStar = 0, getPrimaryBody = Some 3\<rparr>"

definition yearOrbit :: Orbit where
  "yearOrbit = \<lparr>orbitId = 1, getPeriod = 365.25\<rparr>"

definition monthOrbit :: Orbit where
  "monthOrbit = \<lparr>orbitId = 2, getPeriod = 27.3\<rparr>"

definition noFields :: Hash where
  "noFields =
     \<lparr>Beginning = None, Ending = None, OrbitFrame = None, BodyFrame = None,
      orbitFields = (\<lambda>usePlanetUnits. None), rotationFields = (\<lambda>period. None)\<rparr>"

definition orbitOnly :: Hash where
  "orbitOnly = noFields\<lparr>orbitFields := (\<lambda>usePlanetUnits. Some yearOrbit)\<rparr>"

definition endsAt1000 :: Hash where
  "endsAt1000 = orbitOnly\<lparr>Ending := Some (JD 1000)\<rparr>"

definition beginsAt2000 :: Hash where
  "beginsAt2000 = orbitOnly\<lparr>Beginning := Some (JD 2000)\<rparr>"

definition entry :: "Hash \<Rightarrow> Value option \<Rightarrow> PlanetData" where
  "entry h timelineValue =
     \<lparr>Beginning = Beginning h, Ending = Ending h, OrbitFrame = OrbitFrame h,
      BodyFrame = BodyFrame h, orbitFields = orbitFields h,
      rotationFields = rotationFields h, Timeline = timelineValue\<rparr>"

definition newBody :: Body where
  "newBody = \<lparr>getName = [], getTimeline = []\<rparr>"

definition earthPhase :: TimelinePhase where
  "earthPhase =
     \<lparr>startTime = JD 10, endTime = JD 20, orbitFrame = sunFrame, orbit = yearOrbit,
      bodyFrame = heliocentric, rotationModel = CatalogRotationModel 4\<rparr>"

definition laterPhase :: TimelinePhase where
  "laterPhase = earthPhase\<lparr>startTime := JD 20, endTime := Infinity\<rparr>"

definition onePhaseBody :: Body where
  "onePhaseBody = \<lparr>getName = ''Earth'', getTimeline = [earthPhase]\<rparr>"

definition twoPhaseBody :: Body where
  "twoPhaseBody = \<lparr>getName = ''Probe'', getTimeline = [earthPhase, laterPhase]\<rparr>"

definition until1000 :: TimelinePhase where
  "until1000 =
     \<lparr>startTime = NegInfinity, endTime = JD 1000, orbitFrame = sunFrame, orbit = yearOrbit,
      bodyFrame = sunFrame, rotationModel = ConstantOrientation\<rparr>"

definition from1000 :: TimelinePhase where
  "from1000 = until1000\<lparr>startTime := JD 1000, endTime := Infinity\<rparr>"

definition badSecondPhase :: "Value list" where
  "badSecondPhase = [HashType endsAt1000, HashType beginsAt2000]"

text \<open>A universe in which every body belongs to the system of another star, number 1.\<close>

definition strayUniverse :: Universe where
  "strayUniverse = smallUniverse\<lparr>bodySystemStar := (\<lambda>b. 1)\<rparr>"

definition unitSensitive :: Hash where
  "unitSensitive =
     noFields\<lparr>orbitFields :=
       (\<lambda>usePlanetUnits. if usePlanetUnits then Some yearOrbit else Some monthOrbit)\<rparr>"

definition wholeSpan :: TimelinePhase where
  "wholeSpan = until1000\<lparr>endTime := Infinity\<rparr>"

definition spinOnly :: Hash where
  "spinOnly = noFields\<lparr>rotationFields := (\<lambda>period. Some (CatalogRotationModel 8))\<rparr>"

definition heliocentricOrbit :: Hash where
  "heliocentricOrbit = unitSensitive\<lparr>OrbitFrame := Some (FrameDefinition heliocentric)\<rparr>"

definition cyclicOrbitFrame :: Hash where
  "cyclicOrbitFrame = orbitOnly\<lparr>OrbitFrame := Some (FrameDefinition cyclicFrame)\<rparr>"

definition cyclicPhase :: TimelinePhase where
  "cyclicPhase = wholeSpan\<lparr>orbitFrame := cyclicFrame\<rparr>"

section \<open>Properties\<close>

subsection \<open>Auxiliary facts\<close>

lemmas builder_defs =
  CreateTimelineFromArray_def CreateTimelinePhase_def ParseDate_def CreateReferenceFrame_def
  CreateOrbit_def CreateRotationModel_def TimelinePhase_CreateTimelinePhase_def
  appendPhase_def Let_def

lemmas example_defs =
  noFields_def orbitOnly_def endsAt1000_def beginsAt2000_def sunFrame_def yearOrbit_def
  until1000_def from1000_def

lemma contiguous_nth:
  "contiguous tml \<Longrightarrow> Suc i < length tml \<Longrightarrow> endTime (tml ! i) = startTime (tml ! Suc i)"
proof (induction tml arbitrary: i rule: contiguous.induct)
  case (1 p q rest)
  then show ?case by (cases i) auto
qed auto

lemma contiguous_snoc:
  "contiguous tml \<Longrightarrow> (tml \<noteq> [] \<Longrightarrow> endTime (last tml) = startTime ph)
     \<Longrightarrow> contiguous (tml @ [ph])"
  by (induction tml rule: contiguous.induct) auto

lemma CreateTimelinePhase_startTime:
  assumes "fst (CreateTimelinePhase refs pd d isFirst isLast prev) = Inr ph"
  shows "startTime ph =
           (if isFirst then (case Beginning pd of Some t \<Rightarrow> t | None \<Rightarrow> prev) else prev)"
  using assms
  by (auto simp: CreateTimelinePhase_def ParseDate_def Let_def
        TimelinePhase_CreateTimelinePhase_def
      split: option.splits if_splits prod.splits)

lemma loop_contiguous:
  "fst (CreateTimelineFromArray_loop refs d i prev tml vs) = Inr res \<Longrightarrow>
   contiguous tml \<Longrightarrow> (tml \<noteq> [] \<longrightarrow> endTime (last tml) = prev) \<Longrightarrow>
   (i = 0 \<longrightarrow> tml = []) \<Longrightarrow> (tml = [] \<longrightarrow> i = 0) \<Longrightarrow>
   contiguous res"
proof (induction vs arbitrary: refs i prev tml)
  case Nil
  then show ?case by simp
next
  case (Cons v rest)
  from Cons.prems(1) obtain pd where pd: "getHash v = Some pd"
    by (auto split: option.splits)
  from Cons.prems(1) pd obtain ph refs1 where
    ph: "CreateTimelinePhase refs pd d (i = 0) (rest = []) prev = (Inr ph, refs1)"
    and rec: "fst (CreateTimelineFromArray_loop refs1 d (i + 1) (endTime ph)
                (appendPhase tml ph) rest) = Inr res"
    by (auto simp: Let_def split: prod.splits sum.splits)
  have st: "i \<noteq> 0 \<Longrightarrow> startTime ph = prev"
    using CreateTimelinePhase_startTime[of refs pd d "i = 0" "rest = []" prev ph] ph by simp
  have c: "contiguous (appendPhase tml ph)"
    unfolding appendPhase_def using Cons.prems st by (intro contiguous_snoc) auto
  show ?case
    by (rule Cons.IH[OF rec c]) (auto simp: appendPhase_def)
qed

subsection \<open>Contiguity of an assembled timeline\<close>

text \<open>Claim C1. Whenever \<^verbatim>\<open>CreateTimelineFromArray\<close> assembles a timeline from a phase
  array, each phase of the timeline ends at the time at which the next one starts: for
  every index \<open>i\<close> with a successor, the end time of phase \<open>i\<close> is the start time of phase
  \<open>i + 1\<close>.\<close>

theorem timeline_from_array_contiguous:
  assumes "fst (CreateTimelineFromArray refs timelineArray defaultFrame) = Inr timeline"
  shows "\<forall>i. i + 1 < phaseCount timeline \<longrightarrow>
           endTime (getPhase timeline i) = startTime (getPhase timeline (i + 1))"
proof -
  have "contiguous timeline"
    using assms unfolding CreateTimelineFromArray_def
    by (rule loop_contiguous) auto
  then show ?thesis
    by (auto simp: phaseCount_def getPhase_def dest: contiguous_nth)
qed

theorem timeline_from_array_contiguous_witness:
  "fst (CreateTimelineFromArray noRefs [HashType endsAt1000, HashType orbitOnly] sunFrame)
     = Inr [until1000, from1000]
   \<and> endTime (getPhase [until1000, from1000] 0) = startTime (getPhase [until1000, from1000] 1)"
proof -
  have h: "fst (CreateTimelineFromArray noRefs [HashType endsAt1000, HashType orbitOnly] sunFrame)
     = Inr [until1000, from1000]"
    by (simp add: builder_defs example_defs)
  have "0 + 1 < phaseCount [until1000, from1000]"
    by (simp add: phaseCount_def)
  with timeline_from_array_contiguous[OF h] h show ?thesis
    by (metis add_0)
qed

subsection \<open>Misplaced dates in a phase array\<close>

lemma CreateTimelinePhase_misplaced:
  assumes "(\<not> isFirst \<and> Beginning pd \<noteq> None) \<or> (\<not> isLast \<and> Ending pd = None)"
  shows "CreateTimelinePhase refs pd d isFirst isLast prev =
           (Inl (if \<not> isFirst \<and> Beginning pd \<noteq> None then BeginningNotAllowed
                 else EndingRequired), refs)"
  using assms
  by (auto simp: CreateTimelinePhase_def ParseDate_def Let_def split: option.splits)

lemma loop_step_ok:
  assumes "getHash v = Some pd"
      and "CreateTimelinePhase refs pd d (k = 0) (rest = []) prev = (Inr ph, refs1)"
  shows "CreateTimelineFromArray_loop refs d k prev tml (v # rest) =
           CreateTimelineFromArray_loop refs1 d (k + 1) (endTime ph) (appendPhase tml ph) rest"
  using assms by (simp add: Let_def)

lemma loop_step_error:
  assumes "getHash v = Some pd"
      and "CreateTimelinePhase refs pd d (k = 0) (rest = []) prev = (Inl pe, refs1)"
  shows "CreateTimelineFromArray_loop refs d k prev tml (v # rest) =
           (Inl (ErrorInPhase (k + 1) pe), refs1)"
  using assms by (simp add: Let_def)

lemma loop_step_no_hash:
  assumes "getHash v = None"
  shows "CreateTimelineFromArray_loop refs d k prev tml (v # rest) =
           (Inl (NotPropertyGroup (k + 1)), refs)"
  using assms by simp

lemma loop_rejects:
  "i < length vs \<Longrightarrow> getHash (vs ! i) = Some pd \<Longrightarrow>
   (0 < k + i \<and> Beginning pd \<noteq> None) \<or> (i + 1 < length vs \<and> Ending pd = None) \<Longrightarrow>
   \<exists>e. fst (CreateTimelineFromArray_loop refs d k prev tml vs) = Inl e
       \<and> k < reportedPhase e \<and> reportedPhase e \<le> k + i + 1
       \<and> (reportedPhase e < k + i + 1
            \<or> e = ErrorInPhase (k + i + 1) BeginningNotAllowed
            \<or> e = ErrorInPhase (k + i + 1) EndingRequired)"
proof (induction vs arbitrary: i k prev tml refs)
  case Nil
  then show ?case by simp
next
  case (Cons v rest)
  show ?case
  proof (cases i)
    case 0
    with Cons.prems have h: "getHash v = Some pd"
      and bad: "(\<not> (k = 0) \<and> Beginning pd \<noteq> None) \<or> (\<not> (rest = []) \<and> Ending pd = None)"
      by auto
    show ?thesis
      using loop_step_error[OF h CreateTimelinePhase_misplaced[OF bad]] 0
      by auto
  next
    case (Suc i')
    show ?thesis
    proof (cases rule: option.exhaust[of "getHash v"])
      case None
      then show ?thesis using loop_step_no_hash[OF None] Suc by simp
    next
      case (Some h)
      obtain res refs1 where r: "CreateTimelinePhase refs h d (k = 0) (rest = []) prev = (res, refs1)"
        by fastforce
      show ?thesis
      proof (cases res)
        case (Inl pe)
        then show ?thesis using loop_step_error[OF Some r[unfolded Inl]] Suc by simp
      next
        case (Inr ph)
        have 1: "i' < length rest" using Cons.prems(1) Suc by simp
        have 2: "getHash (rest ! i') = Some pd" using Cons.prems(2) Suc by simp
        have 3: "(0 < (k + 1) + i' \<and> Beginning pd \<noteq> None) \<or> (i' + 1 < length rest \<and> Ending pd = None)"
          using Cons.prems(3) Suc by auto
        from Cons.IH[OF 1 2 3, of refs1 "endTime ph" "appendPhase tml ph"]
        show ?thesis
          unfolding loop_step_ok[OF Some r[unfolded Inr]] using Suc by auto
      qed
    qed
  qed
qed

lemma loop_error_names_phase:
  "fst (CreateTimelineFromArray_loop refs d k prev tml vs) = Inl e \<Longrightarrow>
   \<exists>j<length vs. reportedPhase e = k + j + 1 \<and>
     (case getHash (vs ! j) of
        None \<Rightarrow> e = NotPropertyGroup (k + j + 1)
      | Some h \<Rightarrow> \<exists>pe rf pv. e = ErrorInPhase (k + j + 1) pe \<and>
          fst (CreateTimelinePhase rf h d (k + j = 0) (j + 1 = length vs) pv) = Inl pe)"
proof (induction vs arbitrary: k prev tml refs)
  case Nil
  then show ?case by simp
next
  case (Cons v rest)
  show ?case
  proof (cases rule: option.exhaust[of "getHash v"])
    case None
    with Cons.prems show ?thesis by (intro exI[of _ 0]) auto
  next
    case (Some h)
    obtain res refs1 where r: "CreateTimelinePhase refs h d (k = 0) (rest = []) prev = (res, refs1)"
      by fastforce
    show ?thesis
    proof (cases res)
      case (Inl pe)
      have "e = ErrorInPhase (k + 1) pe"
        using Cons.prems loop_step_error[OF Some r[unfolded Inl]] by simp
      moreover have "fst (CreateTimelinePhase refs h d (k + 0 = 0) (0 + 1 = length (v # rest)) prev) = Inl pe"
        using r Inl by auto
      ultimately show ?thesis using Some
        by (intro exI[of _ 0]) auto
    next
      case (Inr ph)
      from Cons.prems have "fst (CreateTimelineFromArray_loop refs1 d (k + 1) (endTime ph) (appendPhase tml ph) rest) = Inl e"
        unfolding loop_step_ok[OF Some r[unfolded Inr]] .
      from Cons.IH[OF this] obtain j where j: "j < length rest" "reportedPhase e = k + 1 + j + 1"
        "(case getHash (rest ! j) of
        None \<Rightarrow> e = NotPropertyGroup (k + 1 + j + 1)
      | Some h \<Rightarrow> \<exists>pe rf pv. e = ErrorInPhase (k + 1 + j + 1) pe \<and>
          fst (CreateTimelinePhase rf h d (k + 1 + j = 0) (j + 1 = length rest) pv) = Inl pe)"
        by blast
      show ?thesis
        using j by (intro exI[of _ "Suc j"]) (auto split: option.splits)
    qed
  qed
qed


lemma CreateTimelinePhase_error_indep:
  "fst (CreateTimelinePhase refs h d f l prev) = Inl pe \<Longrightarrow>
   fst (CreateTimelinePhase refs' h d f l prev') = Inl pe"
  by (auto simp: CreateTimelinePhase_def ParseDate_def CreateReferenceFrame_def Let_def
      split: option.splits if_splits prod.splits FrameValue.splits)

lemma CreateTimeline_array_fails:
  assumes "Timeline planetData = Some (ArrayType timelineArray)"
      and "\<And>d. \<exists>e. fst (CreateTimelineFromArray refs timelineArray d) = Inl e \<and> P e"
  shows "\<exists>e. fst (CreateTimeline universe refs body name system planetData disposition) = Some e
           \<and> (e = BadOrbitBarycenter \<or> (\<exists>a. e = TimelineArrayError a \<and> P a))
           \<and> fst (snd (CreateTimeline universe refs body name system planetData disposition)) = body"
proof (cases rule: option.exhaust[of "parentFrameTreeOf universe (GetOrbitBarycenter universe name system)"])
  case None
  then show ?thesis by (simp add: CreateTimeline_def Let_def)
next
  case (Some pft)
  from assms(2)[of "getDefaultReferenceFrame pft"] obtain a where
    a: "fst (CreateTimelineFromArray refs timelineArray (getDefaultReferenceFrame pft)) = Inl a" "P a"
    by blast
  then obtain refs1 where
    "CreateTimelineFromArray refs timelineArray (getDefaultReferenceFrame pft) = (Inl a, refs1)"
    by (metis fst_conv surj_pair)
  with Some assms(1) a(2) show ?thesis
    by (simp add: CreateTimeline_def Let_def)
qed

text \<open>Claim C6. \<^verbatim>\<open>CreateTimelinePhase\<close> returns no phase for a phase other than the first
  that has a \<^verbatim>\<open>Beginning\<close>, and for a phase other than the last that has no \<^verbatim>\<open>Ending\<close>.
  An array with such a phase at index \<open>i\<close> yields no timeline: \<^verbatim>\<open>CreateTimelineFromArray\<close>
  fails, the error carries the 1-based index of the phase the loop rejected, which is
  phase \<open>i\<close> with its date error unless an earlier phase was rejected, and
  \<^verbatim>\<open>CreateTimeline\<close> fails and leaves the body as it was.\<close>

theorem misplaced_dates_rejected:
  assumes "i < length timelineArray"
      and "getHash (timelineArray ! i) = Some phaseData"
      and "(0 < i \<and> Beginning phaseData \<noteq> None)
           \<or> (i + 1 < length timelineArray \<and> Ending phaseData = None)"
      and "Timeline planetData = Some (ArrayType timelineArray)"
  shows "(\<exists>pe. CreateTimelinePhase refs phaseData defaultFrame (i = 0)
                 (i + 1 = length timelineArray) previousPhaseEnd = (Inl pe, refs)
              \<and> (pe = BeginningNotAllowed \<or> pe = EndingRequired))
       \<and> (\<exists>e. fst (CreateTimelineFromArray refs timelineArray defaultFrame) = Inl e
              \<and> 0 < reportedPhase e
              \<and> (reportedPhase e < i + 1
                   \<or> e = ErrorInPhase (i + 1) BeginningNotAllowed
                   \<or> e = ErrorInPhase (i + 1) EndingRequired)
              \<and> rejection timelineArray defaultFrame (reportedPhase e - 1) = Some e)
       \<and> (\<exists>e. fst (CreateTimeline universe refs body name system planetData disposition) = Some e
              \<and> (e = BadOrbitBarycenter
                   \<or> (\<exists>a. e = TimelineArrayError a \<and> 0 < reportedPhase a
                           \<and> reportedPhase a \<le> i + 1))
              \<and> fst (snd (CreateTimeline universe refs body name system planetData disposition))
                  = body)"
proof (intro conjI)
  have bad: "(\<not> (i = 0) \<and> Beginning phaseData \<noteq> None)
             \<or> (\<not> (i + 1 = length timelineArray) \<and> Ending phaseData = None)"
    using assms(1,3) by auto
  show "\<exists>pe. CreateTimelinePhase refs phaseData defaultFrame (i = 0)
                 (i + 1 = length timelineArray) previousPhaseEnd = (Inl pe, refs)
              \<and> (pe = BeginningNotAllowed \<or> pe = EndingRequired)"
    using CreateTimelinePhase_misplaced[OF bad] by auto
  have rej: "\<exists>e. fst (CreateTimelineFromArray refs timelineArray d) = Inl e
              \<and> 0 < reportedPhase e
              \<and> reportedPhase e \<le> i + 1
              \<and> (reportedPhase e < i + 1
                   \<or> e = ErrorInPhase (i + 1) BeginningNotAllowed
                   \<or> e = ErrorInPhase (i + 1) EndingRequired)" for d
    using loop_rejects[OF assms(1,2), of 0 refs d NegInfinity "[]"] assms(3)
    unfolding CreateTimelineFromArray_def by simp
  from rej[of defaultFrame] obtain e where
    e: "fst (CreateTimelineFromArray refs timelineArray defaultFrame) = Inl e"
       "0 < reportedPhase e"
       "reportedPhase e < i + 1 \<or> e = ErrorInPhase (i + 1) BeginningNotAllowed
          \<or> e = ErrorInPhase (i + 1) EndingRequired"
    by blast
  from loop_error_names_phase[OF e(1)[unfolded CreateTimelineFromArray_def]]
  have "rejection timelineArray defaultFrame (reportedPhase e - 1) = Some e"
    unfolding rejection_def
    by (auto split: option.splits
        simp: CreateTimelinePhase_error_indep[of _ _ _ _ _ _ _ noRefs NegInfinity])
  with e show "\<exists>e. fst (CreateTimelineFromArray refs timelineArray defaultFrame) = Inl e
              \<and> 0 < reportedPhase e
              \<and> (reportedPhase e < i + 1
                   \<or> e = ErrorInPhase (i + 1) BeginningNotAllowed
                   \<or> e = ErrorInPhase (i + 1) EndingRequired)
              \<and> rejection timelineArray defaultFrame (reportedPhase e - 1) = Some e"
    by blast
  have "\<exists>e. fst (CreateTimelineFromArray refs timelineArray d) = Inl e
              \<and> (0 < reportedPhase e \<and> reportedPhase e \<le> i + 1)" for d
    using rej[of d] by blast
  from CreateTimeline_array_fails[of planetData timelineArray refs
         "\<lambda>e. 0 < reportedPhase e \<and> reportedPhase e \<le> i + 1", OF assms(4) this]
  show "\<exists>e. fst (CreateTimeline universe refs body name system planetData disposition) = Some e
              \<and> (e = BadOrbitBarycenter
                   \<or> (\<exists>a. e = TimelineArrayError a \<and> 0 < reportedPhase a
                           \<and> reportedPhase a \<le> i + 1))
              \<and> fst (snd (CreateTimeline universe refs body name system planetData disposition))
                  = body"
    by simp
qed


theorem misplaced_dates_rejected_witness:
  "1 < length badSecondPhase
   \<and> getHash (badSecondPhase ! 1) = Some beginsAt2000
   \<and> Beginning beginsAt2000 \<noteq> None
   \<and> Timeline (entry noFields (Some (ArrayType badSecondPhase))) = Some (ArrayType badSecondPhase)
   \<and> (\<exists>pe. CreateTimelinePhase noRefs beginsAt2000 sunFrame (1 = (0::nat))
                 (1 + 1 = length badSecondPhase) (JD 1000) = (Inl pe, noRefs)
              \<and> (pe = BeginningNotAllowed \<or> pe = EndingRequired))
   \<and> (\<exists>e. fst (CreateTimelineFromArray noRefs badSecondPhase sunFrame) = Inl e
          \<and> 0 < reportedPhase e
          \<and> (reportedPhase e < 1 + 1
               \<or> e = ErrorInPhase (1 + 1) BeginningNotAllowed
               \<or> e = ErrorInPhase (1 + 1) EndingRequired)
          \<and> rejection badSecondPhase sunFrame (reportedPhase e - 1) = Some e)
   \<and> (\<exists>e. fst (CreateTimeline smallUniverse noRefs newBody ''Probe'' planets
                   (entry noFields (Some (ArrayType badSecondPhase))) AddObject) = Some e
          \<and> (e = BadOrbitBarycenter
               \<or> (\<exists>a. e = TimelineArrayError a \<and> 0 < reportedPhase a
                       \<and> reportedPhase a \<le> 1 + 1))
          \<and> fst (snd (CreateTimeline smallUniverse noRefs newBody ''Probe'' planets
                   (entry noFields (Some (ArrayType badSecondPhase))) AddObject)) = newBody)"
proof -
  have h1: "1 < length badSecondPhase"
    by (simp add: badSecondPhase_def)
  have h2: "getHash (badSecondPhase ! 1) = Some beginsAt2000"
    by (simp add: badSecondPhase_def)
  have h3: "Beginning beginsAt2000 \<noteq> None"
    by (simp add: example_defs)
  have h3': "(0 < (1::nat) \<and> Beginning beginsAt2000 \<noteq> None)
           \<or> (1 + 1 < length badSecondPhase \<and> Ending beginsAt2000 = None)"
    using h3 by simp
  have h4: "Timeline (entry noFields (Some (ArrayType badSecondPhase)))
              = Some (ArrayType badSecondPhase)"
    by (simp add: entry_def)
  from misplaced_dates_rejected[OF h1 h2 h3' h4, of noRefs sunFrame "JD 1000" smallUniverse
         newBody "''Probe''" planets AddObject]
  show ?thesis using h1 h2 h3 h4 by blast
qed

subsection \<open>The orbit barycenter\<close>

lemma GetOrbitBarycenter_cases:
  "GetOrbitBarycenter universe name system =
     (case getPrimaryBody system of
        None \<Rightarrow> Selection_star (getStar system)
      | Some p \<Rightarrow> if bodySystemStar universe p = getStar system then Selection_body p
                  else Selection_empty)"
  by (auto simp: GetOrbitBarycenter_def Let_def split: option.splits)

text \<open>Claim C10. When the parent system has no primary body, the barycenter
  \<^verbatim>\<open>GetOrbitBarycenter\<close> resolves is the star of the system, so the check of the star
  branch passes. The result is the empty selection exactly when the system has a primary
  body and the star of that body's own system is not the star of the parent system; the
  construction of the timeline then fails for a bad barycenter.\<close>

theorem barycenter_resolution:
  "(getPrimaryBody system = None \<longrightarrow>
      GetOrbitBarycenter universe name system = Selection_star (getStar system))
   \<and> (GetOrbitBarycenter universe name system = Selection_empty
        \<longleftrightarrow> (\<exists>p. getPrimaryBody system = Some p
                 \<and> bodySystemStar universe p \<noteq> getStar system))
   \<and> (GetOrbitBarycenter universe name system = Selection_empty \<longrightarrow>
        CreateTimeline universe refs body name system planetData disposition
          = (Some BadOrbitBarycenter, body, refs))"
  by (auto simp: GetOrbitBarycenter_cases CreateTimeline_def parentFrameTreeOf_def Let_def
      split: option.splits)

theorem barycenter_resolution_witness:
  "getPrimaryBody planets = None
   \<and> GetOrbitBarycenter smallUniverse ''Earth'' planets = Selection_star (getStar planets)
   \<and> GetOrbitBarycenter strayUniverse ''Moon'' moons = Selection_empty
   \<and> (\<exists>p. getPrimaryBody moons = Some p \<and> bodySystemStar strayUniverse p \<noteq> getStar moons)
   \<and> CreateTimeline strayUniverse noRefs newBody ''Moon'' moons (entry orbitOnly None) AddObject
        = (Some BadOrbitBarycenter, newBody, noRefs)"
proof -
  have h1: "getPrimaryBody planets = None"
    by (simp add: planets_def)
  have h2: "\<exists>p. getPrimaryBody moons = Some p \<and> bodySystemStar strayUniverse p \<noteq> getStar moons"
    by (simp add: moons_def strayUniverse_def)
  from barycenter_resolution[of planets smallUniverse "''Earth''"] h1
  have c1: "GetOrbitBarycenter smallUniverse ''Earth'' planets = Selection_star (getStar planets)"
    by blast
  from barycenter_resolution[of moons strayUniverse "''Moon''" noRefs newBody
         "entry orbitOnly None" AddObject] h2
  have c2: "GetOrbitBarycenter strayUniverse ''Moon'' moons = Selection_empty"
    and c3: "CreateTimeline strayUniverse noRefs newBody ''Moon'' moons (entry orbitOnly None)
               AddObject
             = (Some BadOrbitBarycenter, newBody, noRefs)"
    by blast+
  show ?thesis using h1 h2 c1 c2 c3 by blast
qed

subsection \<open>Facts about the construction from the fields of the object\<close>

lemma parentFrameTree_exists:
  "GetOrbitBarycenter universe name system \<noteq> Selection_empty \<Longrightarrow>
   \<exists>pft. parentFrameTreeOf universe (GetOrbitBarycenter universe name system) = Some pft"
  by (cases "GetOrbitBarycenter universe name system") (auto simp: parentFrameTreeOf_def)

lemma CreateTimeline_legacy:
  assumes "Timeline planetData = None"
      and "parentFrameTreeOf universe (GetOrbitBarycenter universe name system) = Some pft"
  shows "CreateTimeline universe refs body name system planetData disposition =
           CreateTimeline_fields universe refs body pft planetData disposition"
  using assms by (simp add: CreateTimeline_def Let_def)

lemma CreateTimeline_bad_barycenter:
  assumes "parentFrameTreeOf universe (GetOrbitBarycenter universe name system) = None"
  shows "CreateTimeline universe refs body name system planetData disposition =
           (Some BadOrbitBarycenter, body, refs)"
  using assms by (simp add: CreateTimeline_def Let_def)

lemma frame_field_cases [case_names Absent Invalid Defined]:
  fixes fv :: "FrameValue option"
  obtains "fv = None" | "fv = Some InvalidFrame" | f where "fv = Some (FrameDefinition f)"
  by (cases fv) (auto intro: FrameValue.exhaust)

lemma ParseDate_pair:
  "ParseDate field jd = (field \<noteq> None, (case field of Some t \<Rightarrow> t | None \<Rightarrow> jd))"
  by (simp add: ParseDate_def split: option.splits)

lemma not_orbitsPlanet: "(\<not> (if P then False else True)) = P"
  by simp

lemmas fields_core = not_orbitsPlanet
  CreateTimeline_fields_def CreateTimeline_install_def ParseDate_pair CreateReferenceFrame_def
  CreateOrbit_def CreateRotationModel_def CreateDefaultRotationModel_def
  TimelinePhase_CreateTimelinePhase_def
  appendPhase_def setTimeline_def getOrbitFrame_def getBodyFrame_def Let_def

lemmas fields_defs = fields_core phaseCount_def getPhase_def

lemmas more_example_defs =
  strayUniverse_def smallUniverse_def unitSensitive_def wholeSpan_def spinOnly_def
  heliocentricOrbit_def heliocentric_def planets_def moons_def entry_def newBody_def
  onePhaseBody_def twoPhaseBody_def earthPhase_def laterPhase_def monthOrbit_def
  cyclicFrame_def cyclicOrbitFrame_def cyclicPhase_def

lemmas timeline_defs =
  CreateTimeline_def GetOrbitBarycenter_def parentFrameTreeOf_def fields_core
  phaseCount_def getPhase_def isFrameCircular_def MaxFrameDepth_def

subsection \<open>Modify without timeline fields on a timeline of several phases\<close>

lemma fields_modify_many_phases:
  assumes "phaseCount (getTimeline body) \<noteq> 1"
      and "OrbitFrame planetData = None" and "BodyFrame planetData = None"
      and "\<forall>u. orbitFields planetData u = None"
  shows "CreateTimeline_fields universe refs body pft planetData ModifyObject =
           (Some (NoValidOrbit (getName body)), body, refs)"
  using assms by (simp add: fields_defs)

text \<open>Claim C4. A Modify entry with no \<^verbatim>\<open>Timeline\<close>, no \<^verbatim>\<open>OrbitFrame\<close>, no \<^verbatim>\<open>BodyFrame\<close>,
  no orbit, no rotation, no \<^verbatim>\<open>Beginning\<close> and no \<^verbatim>\<open>Ending\<close>, applied to a body whose
  timeline has more than one phase, installs no timeline: the body, and with it the
  timeline, its number of phases and their bounds, is as it was. The call itself returns
  false, for want of a valid orbit (or for a bad barycenter).\<close>

theorem modify_without_fields_keeps_timeline:
  assumes "1 < phaseCount (getTimeline body)"
      and "Timeline planetData = None"
      and "OrbitFrame planetData = None" and "BodyFrame planetData = None"
      and "\<forall>usePlanetUnits. orbitFields planetData usePlanetUnits = None"
      and "\<forall>period. rotationFields planetData period = None"
      and "Beginning planetData = None" and "Ending planetData = None"
  shows "snd (CreateTimeline universe refs body name system planetData ModifyObject)
           = (body, refs)
       \<and> getTimeline (fst (snd (CreateTimeline universe refs body name system planetData
                                  ModifyObject))) = getTimeline body
       \<and> (fst (CreateTimeline universe refs body name system planetData ModifyObject)
             = Some (NoValidOrbit (getName body))
           \<or> fst (CreateTimeline universe refs body name system planetData ModifyObject)
             = Some BadOrbitBarycenter)"
proof (cases "parentFrameTreeOf universe (GetOrbitBarycenter universe name system)")
  case None
  then show ?thesis by (simp add: CreateTimeline_bad_barycenter)
next
  case (Some pft)
  have "phaseCount (getTimeline body) \<noteq> 1" using assms(1) by simp
  from fields_modify_many_phases[OF this assms(3,4,5)] show ?thesis
    by (simp add: CreateTimeline_legacy[OF assms(2) Some])
qed

theorem modify_without_fields_keeps_timeline_witness:
  "1 < phaseCount (getTimeline twoPhaseBody)
   \<and> Timeline (entry noFields None) = None
   \<and> OrbitFrame (entry noFields None) = None \<and> BodyFrame (entry noFields None) = None
   \<and> (\<forall>usePlanetUnits. orbitFields (entry noFields None) usePlanetUnits = None)
   \<and> (\<forall>period. rotationFields (entry noFields None) period = None)
   \<and> Beginning (entry noFields None) = None \<and> Ending (entry noFields None) = None
   \<and> snd (CreateTimeline smallUniverse noRefs twoPhaseBody ''Probe'' planets
             (entry noFields None) ModifyObject) = (twoPhaseBody, noRefs)
   \<and> getTimeline (fst (snd (CreateTimeline smallUniverse noRefs twoPhaseBody ''Probe'' planets
             (entry noFields None) ModifyObject))) = [earthPhase, laterPhase]
   \<and> fst (CreateTimeline smallUniverse noRefs twoPhaseBody ''Probe'' planets
             (entry noFields None) ModifyObject) = Some (NoValidOrbit ''Probe'')"
proof -
  have h1: "1 < phaseCount (getTimeline twoPhaseBody)"
    by (simp add: twoPhaseBody_def phaseCount_def)
  have h2: "Timeline (entry noFields None) = None"
    and h3: "OrbitFrame (entry noFields None) = None"
    and h4: "BodyFrame (entry noFields None) = None"
    and h5: "\<forall>usePlanetUnits. orbitFields (entry noFields None) usePlanetUnits = None"
    and h6: "\<forall>period. rotationFields (entry noFields None) period = None"
    and h7: "Beginning (entry noFields None) = None"
    and h8: "Ending (entry noFields None) = None"
    by (simp_all add: entry_def noFields_def)
  have b: "fst (CreateTimeline smallUniverse noRefs twoPhaseBody ''Probe'' planets
                  (entry noFields None) ModifyObject) \<noteq> Some BadOrbitBarycenter"
    by (simp add: timeline_defs example_defs more_example_defs)
  have n: "getName twoPhaseBody = ''Probe''"
    and t: "getTimeline twoPhaseBody = [earthPhase, laterPhase]"
    by (simp_all add: twoPhaseBody_def)
  from modify_without_fields_keeps_timeline[OF h1 h2 h3 h4 h5 h6 h7 h8,
         of smallUniverse noRefs "''Probe''" planets] b n t
  show ?thesis using h1 h2 h3 h4 h5 h6 h7 h8 by simp
qed

subsection \<open>Modify of the rotation model of a timeline of one phase\<close>

lemma fields_modify_one_phase:
  assumes "getTimeline body = [phase]"
      and "OrbitFrame planetData = None" and "BodyFrame planetData = None"
      and "\<forall>u. orbitFields planetData u = None"
      and "Beginning planetData = None" and "Ending planetData = None"
  shows "CreateTimeline_fields universe refs body pft planetData ModifyObject =
           (None,
            (case rotationFields planetData (getPeriod (orbit phase)) of
               Some r \<Rightarrow> setTimeline body [phase\<lparr>rotationModel := r\<rparr>]
             | None \<Rightarrow> body),
            refs)"
  using assms by (simp add: fields_defs ParseDate_def split: option.splits)

text \<open>Claim C5. A Modify entry that supplies rotation fields and no \<^verbatim>\<open>Timeline\<close>,
  \<^verbatim>\<open>OrbitFrame\<close>, \<^verbatim>\<open>BodyFrame\<close>, orbit, \<^verbatim>\<open>Beginning\<close> or \<^verbatim>\<open>Ending\<close>, applied to a body
  whose timeline has exactly one phase, installs a timeline of one phase that is the
  existing phase with the new rotation model in it: orbit, orbit frame, body frame, start
  and end are those of the existing phase. The rotation model is read with the period of
  the existing orbit. Without the rotation fields nothing is installed.\<close>

theorem modify_rotation_only:
  assumes "getTimeline body = [phase]"
      and "GetOrbitBarycenter universe name system \<noteq> Selection_empty"
      and "Timeline planetData = None"
      and "OrbitFrame planetData = None" and "BodyFrame planetData = None"
      and "\<forall>usePlanetUnits. orbitFields planetData usePlanetUnits = None"
      and "Beginning planetData = None" and "Ending planetData = None"
  shows "CreateTimeline universe refs body name system planetData ModifyObject =
           (None,
            (case CreateRotationModel planetData (getPeriod (orbit phase)) of
               Some r \<Rightarrow> setTimeline body [phase\<lparr>rotationModel := r\<rparr>]
             | None \<Rightarrow> body),
            refs)"
proof -
  from parentFrameTree_exists[OF assms(2)] obtain pft where
    pft: "parentFrameTreeOf universe (GetOrbitBarycenter universe name system) = Some pft" ..
  show ?thesis
    unfolding CreateTimeline_legacy[OF assms(3) pft] CreateRotationModel_def
    by (rule fields_modify_one_phase[OF assms(1,4,5,6,7,8)])
qed

theorem modify_rotation_only_witness:
  "getTimeline onePhaseBody = [earthPhase]
   \<and> GetOrbitBarycenter smallUniverse ''Earth'' planets \<noteq> Selection_empty
   \<and> Timeline (entry spinOnly None) = None
   \<and> OrbitFrame (entry spinOnly None) = None \<and> BodyFrame (entry spinOnly None) = None
   \<and> (\<forall>usePlanetUnits. orbitFields (entry spinOnly None) usePlanetUnits = None)
   \<and> Beginning (entry spinOnly None) = None \<and> Ending (entry spinOnly None) = None
   \<and> CreateTimeline smallUniverse noRefs onePhaseBody ''Earth'' planets (entry spinOnly None)
        ModifyObject
      = (None, setTimeline onePhaseBody [earthPhase\<lparr>rotationModel := CatalogRotationModel 8\<rparr>],
         noRefs)
   \<and> CreateTimeline smallUniverse noRefs onePhaseBody ''Earth'' planets (entry noFields None)
        ModifyObject
      = (None, onePhaseBody, noRefs)"
proof -
  have h1: "getTimeline onePhaseBody = [earthPhase]"
    by (simp add: onePhaseBody_def)
  have h2: "GetOrbitBarycenter smallUniverse ''Earth'' planets \<noteq> Selection_empty"
    by (simp add: GetOrbitBarycenter_def planets_def)
  have h3: "Timeline (entry spinOnly None) = None"
    and h4: "OrbitFrame (entry spinOnly None) = None"
    and h5: "BodyFrame (entry spinOnly None) = None"
    and h6: "\<forall>usePlanetUnits. orbitFields (entry spinOnly None) usePlanetUnits = None"
    and h7: "Beginning (entry spinOnly None) = None"
    and h8: "Ending (entry spinOnly None) = None"
    by (simp_all add: entry_def noFields_def spinOnly_def)
  have g3: "Timeline (entry noFields None) = None"
    and g4: "OrbitFrame (entry noFields None) = None"
    and g5: "BodyFrame (entry noFields None) = None"
    and g6: "\<forall>usePlanetUnits. orbitFields (entry noFields None) usePlanetUnits = None"
    and g7: "Beginning (entry noFields None) = None"
    and g8: "Ending (entry noFields None) = None"
    by (simp_all add: entry_def noFields_def)
  have r: "CreateRotationModel (entry spinOnly None) (getPeriod (orbit earthPhase))
             = Some (CatalogRotationModel 8)"
    by (simp add: CreateRotationModel_def entry_def noFields_def spinOnly_def)
  have r': "CreateRotationModel (entry noFields None) (getPeriod (orbit earthPhase)) = None"
    by (simp add: CreateRotationModel_def entry_def noFields_def)
  from modify_rotation_only[OF h1 h2 h3 h4 h5 h6 h7 h8, of noRefs] r
  have c1: "CreateTimeline smallUniverse noRefs onePhaseBody ''Earth'' planets
              (entry spinOnly None) ModifyObject
            = (None,
               setTimeline onePhaseBody [earthPhase\<lparr>rotationModel := CatalogRotationModel 8\<rparr>],
               noRefs)"
    by simp
  from modify_rotation_only[OF h1 h2 g3 g4 g5 g6 g7 g8, of noRefs] r'
  have c2: "CreateTimeline smallUniverse noRefs onePhaseBody ''Earth'' planets
              (entry noFields None) ModifyObject
            = (None, onePhaseBody, noRefs)"
    by simp
  show ?thesis using h1 h2 h3 h4 h5 h6 h7 h8 c1 c2 by blast
qed

subsection \<open>A new body with an orbit frame centered on a star\<close>

lemma fields_new_orbit_frame:
  assumes "OrbitFrame planetData = Some (FrameDefinition F)"
      and "star_of (getCenter F) = Some s"
      and "orbitFields planetData True = Some orb"
      and "rotationFields planetData (getPeriod orb) = None"
      and "Beginning planetData = None" and "Ending planetData = None"
  shows "\<exists>ph. getTimeline (fst (snd (CreateTimeline_fields universe refs body pft planetData
                                      AddObject))) = [ph]
           \<and> startTime ph = NegInfinity \<and> endTime ph = Infinity \<and> orbitFrame ph = F
           \<and> orbit ph = orb \<and> rotationModel ph = CreateDefaultRotationModel (getPeriod orb)"
    and "fst (CreateTimeline_fields universe refs body pft planetData AddObject) = None
         \<or> (\<exists>e. fst (CreateTimeline_fields universe refs body pft planetData AddObject) = Some e
                \<and> nestedTooDeep e)"
  using assms
  by (cases "BodyFrame planetData" rule: frame_field_cases; simp add: fields_defs)+

text \<open>Claim C8. For an Add entry with an \<^verbatim>\<open>OrbitFrame\<close> that defines a frame \<open>F\<close> centered
  on a star, an orbit of period \<open>P\<close> (read in planet units), no rotation fields, no
  \<^verbatim>\<open>Beginning\<close> and no \<^verbatim>\<open>Ending\<close>, the timeline installed on the body has exactly one
  phase, from minus infinity to infinity, with orbit frame \<open>F\<close>, that orbit and the default
  rotation model of period \<open>P\<close>. The call returns true unless a frame is nested too
  deep.\<close>

theorem add_with_star_centered_frame:
  assumes "GetOrbitBarycenter universe name system \<noteq> Selection_empty"
      and "Timeline planetData = None"
      and "OrbitFrame planetData = Some (FrameDefinition F)"
      and "star_of (getCenter F) = Some s"
      and "CreateOrbit planetData True = Some orb"
      and "getPeriod orb = P"
      and "\<forall>period. CreateRotationModel planetData period = None"
      and "Beginning planetData = None" and "Ending planetData = None"
  shows "(\<exists>ph. getTimeline (fst (snd (CreateTimeline universe refs body name system planetData
                                       AddObject))) = [ph]
           \<and> startTime ph = NegInfinity \<and> endTime ph = Infinity \<and> orbitFrame ph = F
           \<and> orbit ph = orb \<and> rotationModel ph = CreateDefaultRotationModel P)
       \<and> phaseCount (getTimeline (fst (snd (CreateTimeline universe refs body name system
                                            planetData AddObject)))) = 1
       \<and> (fst (CreateTimeline universe refs body name system planetData AddObject) = None
         \<or> (\<exists>e. fst (CreateTimeline universe refs body name system planetData AddObject)
                  = Some e
                \<and> nestedTooDeep e))"
proof -
  from parentFrameTree_exists[OF assms(1)] obtain pft where
    pft: "parentFrameTreeOf universe (GetOrbitBarycenter universe name system) = Some pft" ..
  have o: "orbitFields planetData True = Some orb"
    using assms(5) by (simp add: CreateOrbit_def)
  have r: "rotationFields planetData (getPeriod orb) = None"
    using assms(7) by (simp add: CreateRotationModel_def)
  note f = fields_new_orbit_frame[OF assms(3,4) o r assms(8,9), of universe refs body pft]
  show ?thesis
    unfolding CreateTimeline_legacy[OF assms(2) pft]
    using f assms(6) by (auto simp: phaseCount_def)
qed

theorem add_with_star_centered_frame_witness:
  "GetOrbitBarycenter smallUniverse ''Earth'' planets \<noteq> Selection_empty
   \<and> Timeline (entry heliocentricOrbit None) = None
   \<and> OrbitFrame (entry heliocentricOrbit None) = Some (FrameDefinition heliocentric)
   \<and> star_of (getCenter heliocentric) = Some 0
   \<and> CreateOrbit (entry heliocentricOrbit None) True = Some yearOrbit
   \<and> getPeriod yearOrbit = 365.25
   \<and> (\<forall>period. CreateRotationModel (entry heliocentricOrbit None) period = None)
   \<and> Beginning (entry heliocentricOrbit None) = None
   \<and> Ending (entry heliocentricOrbit None) = None
   \<and> (\<exists>ph. getTimeline (fst (snd (CreateTimeline smallUniverse noRefs newBody ''Earth'' planets
                                     (entry heliocentricOrbit None) AddObject))) = [ph]
           \<and> startTime ph = NegInfinity \<and> endTime ph = Infinity \<and> orbitFrame ph = heliocentric
           \<and> orbit ph = yearOrbit \<and> rotationModel ph = CreateDefaultRotationModel 365.25)
   \<and> phaseCount (getTimeline (fst (snd (CreateTimeline smallUniverse noRefs newBody ''Earth''
        planets (entry heliocentricOrbit None) AddObject)))) = 1"
proof -
  have h1: "GetOrbitBarycenter smallUniverse ''Earth'' planets \<noteq> Selection_empty"
    by (simp add: GetOrbitBarycenter_def planets_def)
  have h2: "Timeline (entry heliocentricOrbit None) = None"
    and h3: "OrbitFrame (entry heliocentricOrbit None) = Some (FrameDefinition heliocentric)"
    and h4: "star_of (getCenter heliocentric) = Some 0"
    and h5: "CreateOrbit (entry heliocentricOrbit None) True = Some yearOrbit"
    and h6: "getPeriod yearOrbit = 365.25"
    and h7: "\<forall>period. CreateRotationModel (entry heliocentricOrbit None) period = None"
    and h8: "Beginning (entry heliocentricOrbit None) = None"
    and h9: "Ending (entry heliocentricOrbit None) = None"
    by (simp_all add: CreateOrbit_def CreateRotationModel_def example_defs more_example_defs)
  from add_with_star_centered_frame[OF h1 h2 h3 h4 h5 h6 h7 h8 h9, of noRefs newBody]
  show ?thesis using h1 h2 h3 h4 h5 h6 h7 h8 h9 by blast
qed

subsection \<open>The units of the orbit\<close>

lemma phase_orbit_flag:
  assumes "fst (CreateTimelinePhase refs phaseData defaultFrame isFirst isLast prev) = Inr phase"
  shows "orbitFrame phase = resolvedOrbitFrame (OrbitFrame phaseData) defaultFrame"
    and "CreateOrbit phaseData (centeredOnStar (orbitFrame phase)) = Some (orbit phase)"
  using assms
  by (auto simp: CreateTimelinePhase_def ParseDate_def CreateReferenceFrame_def Let_def
        TimelinePhase_CreateTimelinePhase_def resolvedOrbitFrame_def centeredOnStar_def
      split: option.splits if_splits prod.splits FrameValue.splits)

lemma phase_missing_orbit:
  assumes "fst (CreateTimelinePhase refs phaseData defaultFrame isFirst isLast prev) = Inl MissingOrbit"
  shows "CreateOrbit phaseData
           (centeredOnStar (resolvedOrbitFrame (OrbitFrame phaseData) defaultFrame)) = None"
  using assms
  by (auto simp: CreateTimelinePhase_def ParseDate_def CreateReferenceFrame_def Let_def
        TimelinePhase_CreateTimelinePhase_def resolvedOrbitFrame_def centeredOnStar_def
      split: option.splits if_splits prod.splits FrameValue.splits)

lemma fields_orbit_flag_some:
  assumes "CreateOrbit planetData
             (centeredOnStar (resolvedOrbitFrame (OrbitFrame planetData)
                (fallbackFrame disposition body pft))) = Some orb"
  shows "\<exists>ph. getTimeline (fst (snd (CreateTimeline_fields universe refs body pft planetData disposition))) = [ph]
           \<and> orbit ph = orb
           \<and> orbitFrame ph = resolvedOrbitFrame (OrbitFrame planetData) (fallbackFrame disposition body pft)"
proof (cases "disposition = ModifyObject \<and> phaseCount (getTimeline body) = 1")
  case True
  then have c: "(disposition = ModifyObject \<and> phaseCount (getTimeline body) = Suc 0) = True"
    by simp
  show ?thesis
    using assms
    by (cases "OrbitFrame planetData" rule: frame_field_cases;
        cases "BodyFrame planetData" rule: frame_field_cases)
       (simp_all add: c fields_core resolvedOrbitFrame_def centeredOnStar_def fallbackFrame_def)
next
  case False
  then have c: "(disposition = ModifyObject \<and> phaseCount (getTimeline body) = Suc 0) = False"
    by simp
  show ?thesis
    using assms
    by (cases "OrbitFrame planetData" rule: frame_field_cases;
        cases "BodyFrame planetData" rule: frame_field_cases)
       (simp_all add: c fields_core resolvedOrbitFrame_def centeredOnStar_def fallbackFrame_def)
qed

lemma fields_orbit_flag_none:
  assumes "CreateOrbit planetData
             (centeredOnStar (resolvedOrbitFrame (OrbitFrame planetData)
                (fallbackFrame disposition body pft))) = None"
      and "\<not> (disposition = ModifyObject \<and> phaseCount (getTimeline body) = 1)"
  shows "fst (CreateTimeline_fields universe refs body pft planetData disposition)
           = Some (NoValidOrbit (getName body))"
proof -
  from assms(2)
  have c: "(disposition = ModifyObject \<and> phaseCount (getTimeline body) = Suc 0) = False"
    by simp
  show ?thesis
    using assms(1)
    by (cases "OrbitFrame planetData" rule: frame_field_cases;
        cases "BodyFrame planetData" rule: frame_field_cases)
       (simp_all add: c fields_core resolvedOrbitFrame_def centeredOnStar_def fallbackFrame_def)
qed

text \<open>Claim C7. In both paths the flag \<^verbatim>\<open>usePlanetUnits\<close> handed to \<^verbatim>\<open>CreateOrbit\<close> is
  true exactly when the orbit frame the entry resolves to is centered on a star.
  \<^verbatim>\<open>CreateOrbit\<close> is any function of the flag here, so this is read off its result. For a
  phase of an array: the orbit frame of the phase built is the frame of the \<^verbatim>\<open>OrbitFrame\<close>
  field, the default frame when there is none, and the orbit of the phase is what
  \<^verbatim>\<open>CreateOrbit\<close> gives for the flag of that frame; a phase fails for a missing orbit only
  when \<^verbatim>\<open>CreateOrbit\<close> gives none for that flag. For the fields of the object: the frame is
  that of the field, falling back on the frame of the phase being modified or the default
  frame; an orbit that \<^verbatim>\<open>CreateOrbit\<close> gives for the flag of that frame is the orbit of the
  installed phase, and with none (and no phase to inherit from) the construction fails.
  The kind of barycenter plays no part.\<close>

theorem orbit_units_follow_resolved_frame:
  "(\<forall>phase. fst (CreateTimelinePhase refs phaseData defaultFrame isFirstPhase isLastPhase
                   previousPhaseEnd) = Inr phase \<longrightarrow>
       orbitFrame phase = resolvedOrbitFrame (OrbitFrame phaseData) defaultFrame
       \<and> CreateOrbit phaseData (centeredOnStar (orbitFrame phase)) = Some (orbit phase))
   \<and> (fst (CreateTimelinePhase refs phaseData defaultFrame isFirstPhase isLastPhase
              previousPhaseEnd) = Inl MissingOrbit \<longrightarrow>
       CreateOrbit phaseData
         (centeredOnStar (resolvedOrbitFrame (OrbitFrame phaseData) defaultFrame)) = None)
   \<and> (Timeline planetData = None
       \<and> parentFrameTreeOf universe (GetOrbitBarycenter universe name system)
           = Some parentFrameTree \<longrightarrow>
       (\<forall>orb. CreateOrbit planetData
                (centeredOnStar (resolvedOrbitFrame (OrbitFrame planetData)
                   (fallbackFrame disposition body parentFrameTree))) = Some orb \<longrightarrow>
          (\<exists>ph. getTimeline (fst (snd (CreateTimeline universe refs body name system planetData
                                         disposition))) = [ph]
                \<and> orbit ph = orb
                \<and> orbitFrame ph = resolvedOrbitFrame (OrbitFrame planetData)
                                     (fallbackFrame disposition body parentFrameTree)))
       \<and> (CreateOrbit planetData
                (centeredOnStar (resolvedOrbitFrame (OrbitFrame planetData)
                   (fallbackFrame disposition body parentFrameTree))) = None
          \<and> \<not> (disposition = ModifyObject \<and> phaseCount (getTimeline body) = 1) \<longrightarrow>
          fst (CreateTimeline universe refs body name system planetData disposition)
            = Some (NoValidOrbit (getName body))))"
proof (intro conjI allI impI)
  fix phase
  assume "fst (CreateTimelinePhase refs phaseData defaultFrame isFirstPhase isLastPhase
                   previousPhaseEnd) = Inr phase"
  then show "orbitFrame phase = resolvedOrbitFrame (OrbitFrame phaseData) defaultFrame"
    and "CreateOrbit phaseData (centeredOnStar (orbitFrame phase)) = Some (orbit phase)"
    by (rule phase_orbit_flag)+
next
  assume "fst (CreateTimelinePhase refs phaseData defaultFrame isFirstPhase isLastPhase
              previousPhaseEnd) = Inl MissingOrbit"
  then show "CreateOrbit phaseData
         (centeredOnStar (resolvedOrbitFrame (OrbitFrame phaseData) defaultFrame)) = None"
    by (rule phase_missing_orbit)
next
  fix orb
  assume a: "Timeline planetData = None
       \<and> parentFrameTreeOf universe (GetOrbitBarycenter universe name system)
           = Some parentFrameTree"
    and o: "CreateOrbit planetData
                (centeredOnStar (resolvedOrbitFrame (OrbitFrame planetData)
                   (fallbackFrame disposition body parentFrameTree))) = Some orb"
  from a have eq: "CreateTimeline universe refs body name system planetData disposition =
           CreateTimeline_fields universe refs body parentFrameTree planetData disposition"
    by (simp add: CreateTimeline_legacy)
  show "\<exists>ph. getTimeline (fst (snd (CreateTimeline universe refs body name system planetData
                                         disposition))) = [ph]
                \<and> orbit ph = orb
                \<and> orbitFrame ph = resolvedOrbitFrame (OrbitFrame planetData)
                                     (fallbackFrame disposition body parentFrameTree)"
    unfolding eq by (rule fields_orbit_flag_some[OF o])
next
  assume a: "Timeline planetData = None
       \<and> parentFrameTreeOf universe (GetOrbitBarycenter universe name system)
           = Some parentFrameTree"
    and o: "CreateOrbit planetData
                (centeredOnStar (resolvedOrbitFrame (OrbitFrame planetData)
                   (fallbackFrame disposition body parentFrameTree))) = None
          \<and> \<not> (disposition = ModifyObject \<and> phaseCount (getTimeline body) = 1)"
  from a have eq: "CreateTimeline universe refs body name system planetData disposition =
           CreateTimeline_fields universe refs body parentFrameTree planetData disposition"
    by (simp add: CreateTimeline_legacy)
  from o show "fst (CreateTimeline universe refs body name system planetData disposition)
            = Some (NoValidOrbit (getName body))"
    unfolding eq by (intro fields_orbit_flag_none) simp_all
qed

theorem orbit_units_follow_resolved_frame_witness:
  "fst (CreateTimelinePhase noRefs unitSensitive sunFrame True True NegInfinity)
     = Inr (wholeSpan\<lparr>orbit := yearOrbit\<rparr>)
   \<and> orbitFrame (wholeSpan\<lparr>orbit := yearOrbit\<rparr>)
       = resolvedOrbitFrame (OrbitFrame unitSensitive) sunFrame
   \<and> CreateOrbit unitSensitive (centeredOnStar (orbitFrame (wholeSpan\<lparr>orbit := yearOrbit\<rparr>)))
       = Some (orbit (wholeSpan\<lparr>orbit := yearOrbit\<rparr>))
   \<and> fst (CreateTimelinePhase noRefs noFields sunFrame True True NegInfinity) = Inl MissingOrbit
   \<and> CreateOrbit noFields (centeredOnStar (resolvedOrbitFrame (OrbitFrame noFields) sunFrame))
       = None
   \<and> Timeline (entry heliocentricOrbit None) = None
   \<and> parentFrameTreeOf smallUniverse (GetOrbitBarycenter smallUniverse ''Moon'' moons)
       = Some (bodyFrameTree smallUniverse 3)
   \<and> CreateOrbit (entry heliocentricOrbit None)
        (centeredOnStar (resolvedOrbitFrame (OrbitFrame (entry heliocentricOrbit None))
           (fallbackFrame AddObject newBody (bodyFrameTree smallUniverse 3)))) = Some yearOrbit
   \<and> (\<exists>ph. getTimeline (fst (snd (CreateTimeline smallUniverse noRefs newBody ''Moon'' moons
                                     (entry heliocentricOrbit None) AddObject))) = [ph]
          \<and> orbit ph = yearOrbit
          \<and> orbitFrame ph = resolvedOrbitFrame (OrbitFrame (entry heliocentricOrbit None))
                               (fallbackFrame AddObject newBody (bodyFrameTree smallUniverse 3)))
   \<and> Timeline (entry noFields None) = None
   \<and> CreateOrbit (entry noFields None)
        (centeredOnStar (resolvedOrbitFrame (OrbitFrame (entry noFields None))
           (fallbackFrame AddObject newBody (bodyFrameTree smallUniverse 3)))) = None
   \<and> fst (CreateTimeline smallUniverse noRefs newBody ''Moon'' moons (entry noFields None)
            AddObject) = Some (NoValidOrbit (getName newBody))"
proof -
  have p1: "fst (CreateTimelinePhase noRefs unitSensitive sunFrame True True NegInfinity)
     = Inr (wholeSpan\<lparr>orbit := yearOrbit\<rparr>)"
    by (simp add: builder_defs example_defs more_example_defs)
  have p2: "fst (CreateTimelinePhase noRefs noFields sunFrame True True NegInfinity)
     = Inl MissingOrbit"
    by (simp add: builder_defs example_defs more_example_defs)
  have t1: "Timeline (entry heliocentricOrbit None) = None"
    and t2: "Timeline (entry noFields None) = None"
    by (simp_all add: entry_def)
  have b: "parentFrameTreeOf smallUniverse (GetOrbitBarycenter smallUniverse ''Moon'' moons)
       = Some (bodyFrameTree smallUniverse 3)"
    by (simp add: parentFrameTreeOf_def GetOrbitBarycenter_def moons_def smallUniverse_def)
  have o1: "CreateOrbit (entry heliocentricOrbit None)
        (centeredOnStar (resolvedOrbitFrame (OrbitFrame (entry heliocentricOrbit None))
           (fallbackFrame AddObject newBody (bodyFrameTree smallUniverse 3)))) = Some yearOrbit"
    by (simp add: CreateOrbit_def centeredOnStar_def resolvedOrbitFrame_def
          example_defs more_example_defs)
  have o2: "CreateOrbit (entry noFields None)
        (centeredOnStar (resolvedOrbitFrame (OrbitFrame (entry noFields None))
           (fallbackFrame AddObject newBody (bodyFrameTree smallUniverse 3)))) = None"
    by (simp add: CreateOrbit_def entry_def noFields_def)
  note A = orbit_units_follow_resolved_frame[of noRefs unitSensitive sunFrame True True NegInfinity]
  note B = orbit_units_follow_resolved_frame[of noRefs noFields sunFrame True True NegInfinity]
  note C = orbit_units_follow_resolved_frame[of noRefs noFields sunFrame True True NegInfinity "entry heliocentricOrbit None"
              smallUniverse "''Moon''" moons "bodyFrameTree smallUniverse 3" AddObject newBody]
  note D = orbit_units_follow_resolved_frame[of noRefs noFields sunFrame True True NegInfinity "entry noFields None"
              smallUniverse "''Moon''" moons "bodyFrameTree smallUniverse 3" AddObject newBody]
  have a1: "orbitFrame (wholeSpan\<lparr>orbit := yearOrbit\<rparr>)
       = resolvedOrbitFrame (OrbitFrame unitSensitive) sunFrame"
    and a2: "CreateOrbit unitSensitive (centeredOnStar (orbitFrame (wholeSpan\<lparr>orbit := yearOrbit\<rparr>)))
       = Some (orbit (wholeSpan\<lparr>orbit := yearOrbit\<rparr>))"
    using A p1 by blast+
  have b1: "CreateOrbit noFields (centeredOnStar (resolvedOrbitFrame (OrbitFrame noFields) sunFrame))
       = None"
    using B p2 by blast
  have c1: "\<exists>ph. getTimeline (fst (snd (CreateTimeline smallUniverse noRefs newBody ''Moon'' moons
                                     (entry heliocentricOrbit None) AddObject))) = [ph]
          \<and> orbit ph = yearOrbit
          \<and> orbitFrame ph = resolvedOrbitFrame (OrbitFrame (entry heliocentricOrbit None))
                               (fallbackFrame AddObject newBody (bodyFrameTree smallUniverse 3))"
    using C t1 b o1 by blast
  have d1: "fst (CreateTimeline smallUniverse noRefs newBody ''Moon'' moons (entry noFields None)
            AddObject) = Some (NoValidOrbit (getName newBody))"
    using D t2 b o2 by simp
  show ?thesis
    using p1 a1 a2 p2 b1 t1 b o1 c1 t2 o2 d1 by blast
qed

subsection \<open>What a failed construction leaves behind\<close>

lemma release_addRef: "release (addRef refs frame) frame = refs"
  by (simp add: release_def addRef_def fun_eq_iff)

lemma CreateTimelinePhase_failure_refs:
  assumes "fst (CreateTimelinePhase refs phaseData defaultFrame isFirst isLast prev) = Inl pe"
  shows "snd (CreateTimelinePhase refs phaseData defaultFrame isFirst isLast prev) = refs"
  using assms
  by (cases "OrbitFrame phaseData" rule: frame_field_cases;
      cases "BodyFrame phaseData" rule: frame_field_cases)
     (auto simp: CreateTimelinePhase_def ParseDate_pair CreateReferenceFrame_def Let_def
        release_addRef split: option.splits if_splits)

lemma install_failure_effect:
  "failureEffect body
     (CreateTimeline_install universe refs body disposition newOrbitFrame newBodyFrame
        overrideOldTimeline beginning ending orbitFrame2 orbit1 bodyFrame2 rotationModel2)"
  by (simp add: failureEffect_def CreateTimeline_install_def Let_def setTimeline_def
        appendPhase_def)

lemma under_case_prod:
  assumes "\<And>a b. P (f a b)"
  shows "P (case p of (a, b) \<Rightarrow> f a b)"
  using assms by (cases p) simp

lemma under_case_option:
  assumes "P n" and "\<And>x. P (s x)"
  shows "P (case v of None \<Rightarrow> n | Some x \<Rightarrow> s x)"
  using assms by (cases v) simp_all

lemma fields_shape:
  assumes "\<And>r. P (Some (NoValidOrbit (getName body)), body, r)"
      and "\<And>r a b c d e f g h i. P (CreateTimeline_install universe r body disposition
                                        a b c d e f g h i)"
  shows "P (CreateTimeline_fields universe refs body pft planetData disposition)"
  unfolding CreateTimeline_fields_def Let_def
  by (intro under_case_prod[where P = P] under_case_option[where P = P] assms)

lemma fields_failure_effect:
  "failureEffect body (CreateTimeline_fields universe refs body pft planetData disposition)"
  by (rule fields_shape) (simp_all add: install_failure_effect, simp add: failureEffect_def)

lemma CreateTimeline_failure_effect:
  "failureEffect body (CreateTimeline universe refs body name system planetData disposition)"
proof (cases "parentFrameTreeOf universe (GetOrbitBarycenter universe name system)")
  case None
  then show ?thesis by (simp add: CreateTimeline_bad_barycenter failureEffect_def)
next
  case pft: (Some pft)
  show ?thesis
  proof (cases "Timeline planetData")
    case None
    show ?thesis
      unfolding CreateTimeline_legacy[OF None pft] by (rule fields_failure_effect)
  next
    case (Some v)
    with pft show ?thesis
      by (auto simp: CreateTimeline_def failureEffect_def Let_def
          split: option.splits prod.splits sum.splits)
  qed
qed

text \<open>Claim C3, as amended. A construction that fails for any reason but a frame nested
  too deep has not called \<^verbatim>\<open>setTimeline\<close>: the body is as it was. A nesting failure is
  returned after the new timeline of one phase has been installed in place of the old
  one. A call of \<^verbatim>\<open>CreateTimelinePhase\<close> that fails has released every frame reference it
  took: the reference counts are as they were.\<close>

theorem failed_construction_effects:
  "(\<forall>e. fst (CreateTimeline universe refs body name system planetData disposition) = Some e \<longrightarrow>
      (if nestedTooDeep e
       then \<exists>ph. fst (snd (CreateTimeline universe refs body name system planetData
                             disposition)) = setTimeline body [ph]
       else fst (snd (CreateTimeline universe refs body name system planetData disposition))
              = body))
   \<and> (\<forall>pe. fst (CreateTimelinePhase refs phaseData defaultFrame isFirstPhase isLastPhase
                  previousPhaseEnd) = Inl pe \<longrightarrow>
         snd (CreateTimelinePhase refs phaseData defaultFrame isFirstPhase isLastPhase
                previousPhaseEnd) = refs)"
proof (intro conjI allI impI)
  fix e
  assume "fst (CreateTimeline universe refs body name system planetData disposition) = Some e"
  with CreateTimeline_failure_effect[of body universe refs name system planetData disposition]
  show "if nestedTooDeep e
       then \<exists>ph. fst (snd (CreateTimeline universe refs body name system planetData
                             disposition)) = setTimeline body [ph]
       else fst (snd (CreateTimeline universe refs body name system planetData disposition))
              = body"
    by (auto simp add: failureEffect_def split: list.splits if_splits)
next
  fix pe
  assume "fst (CreateTimelinePhase refs phaseData defaultFrame isFirstPhase isLastPhase
                  previousPhaseEnd) = Inl pe"
  then show "snd (CreateTimelinePhase refs phaseData defaultFrame isFirstPhase isLastPhase
                previousPhaseEnd) = refs"
    by (rule CreateTimelinePhase_failure_refs)
qed

theorem failed_construction_effects_witness:
  "fst (CreateTimeline smallUniverse noRefs onePhaseBody ''Earth'' planets
          (entry cyclicOrbitFrame None) ModifyObject)
     = Some (OrbitFrameNestedTooDeep ''Earth'')
   \<and> (\<exists>ph. fst (snd (CreateTimeline smallUniverse noRefs onePhaseBody ''Earth'' planets
                        (entry cyclicOrbitFrame None) ModifyObject))
            = setTimeline onePhaseBody [ph])
   \<and> fst (CreateTimeline smallUniverse noRefs newBody ''Probe'' planets (entry noFields None)
            AddObject) = Some (NoValidOrbit [])
   \<and> fst (snd (CreateTimeline smallUniverse noRefs newBody ''Probe'' planets
                  (entry noFields None) AddObject)) = newBody
   \<and> fst (CreateTimelinePhase noRefs noFields sunFrame True True NegInfinity) = Inl MissingOrbit
   \<and> snd (CreateTimelinePhase noRefs noFields sunFrame True True NegInfinity) = noRefs"
proof -
  have h1: "fst (CreateTimeline smallUniverse noRefs onePhaseBody ''Earth'' planets
          (entry cyclicOrbitFrame None) ModifyObject)
     = Some (OrbitFrameNestedTooDeep ''Earth'')"
    by (simp add: timeline_defs example_defs more_example_defs)
  have h2: "fst (CreateTimeline smallUniverse noRefs newBody ''Probe'' planets
                   (entry noFields None) AddObject) = Some (NoValidOrbit [])"
    by (simp add: timeline_defs example_defs more_example_defs)
  have h3: "fst (CreateTimelinePhase noRefs noFields sunFrame True True NegInfinity)
              = Inl MissingOrbit"
    by (simp add: builder_defs example_defs)
  note A = failed_construction_effects[of smallUniverse noRefs onePhaseBody "''Earth''" planets
             "entry cyclicOrbitFrame None" ModifyObject noFields sunFrame True True NegInfinity]
  note B = failed_construction_effects[of smallUniverse noRefs newBody "''Probe''" planets
             "entry noFields None" AddObject noFields sunFrame True True NegInfinity]
  have c1: "\<exists>ph. fst (snd (CreateTimeline smallUniverse noRefs onePhaseBody ''Earth'' planets
                        (entry cyclicOrbitFrame None) ModifyObject))
            = setTimeline onePhaseBody [ph]"
    using A h1 by auto
  have c2: "fst (snd (CreateTimeline smallUniverse noRefs newBody ''Probe'' planets
                  (entry noFields None) AddObject)) = newBody"
    using B h2 by auto
  have c3: "snd (CreateTimelinePhase noRefs noFields sunFrame True True NegInfinity) = noRefs"
    using A h3 by blast
  show ?thesis using h1 h2 h3 c1 c2 c3 by blast
qed

text \<open>Claim C3 as stated fails: a Modify entry whose new orbit frame is nested too deep
  makes \<^verbatim>\<open>CreateTimeline\<close> return false, and the body no longer has the timeline it had.\<close>

theorem nesting_failure_replaces_timeline:
  "fst (CreateTimeline smallUniverse noRefs onePhaseBody ''Earth'' planets
          (entry cyclicOrbitFrame None) ModifyObject)
     = Some (OrbitFrameNestedTooDeep ''Earth'')
   \<and> getTimeline (fst (snd (CreateTimeline smallUniverse noRefs onePhaseBody ''Earth'' planets
          (entry cyclicOrbitFrame None) ModifyObject)))
       = [earthPhase\<lparr>orbitFrame := cyclicFrame\<rparr>]
   \<and> getTimeline (fst (snd (CreateTimeline smallUniverse noRefs onePhaseBody ''Earth'' planets
          (entry cyclicOrbitFrame None) ModifyObject)))
       \<noteq> getTimeline onePhaseBody"
  by (simp add: timeline_defs example_defs more_example_defs)

subsection \<open>Frames of a phase array are not checked\<close>

text \<open>Claim C2 fails on the phase array path. The frame \<open>cyclicFrame\<close> is nested deeper
  than the 50 levels allowed. Given as the \<^verbatim>\<open>OrbitFrame\<close> of the only phase of a
  \<^verbatim>\<open>Timeline\<close> array, it is attached to the body and \<^verbatim>\<open>CreateTimeline\<close> returns true;
  given as the \<^verbatim>\<open>OrbitFrame\<close> of the object itself, \<^verbatim>\<open>CreateTimeline\<close> returns false and
  reports the orbit frame of the body.\<close>

theorem array_path_skips_nesting_check:
  "isFrameCircular smallUniverse cyclicFrame PositionFrame
   \<and> fst (CreateTimeline smallUniverse noRefs onePhaseBody ''Earth'' planets
            (entry noFields (Some (ArrayType [HashType cyclicOrbitFrame]))) ModifyObject) = None
   \<and> getTimeline (fst (snd (CreateTimeline smallUniverse noRefs onePhaseBody ''Earth'' planets
            (entry noFields (Some (ArrayType [HashType cyclicOrbitFrame]))) ModifyObject)))
       = [cyclicPhase]
   \<and> orbitFrame cyclicPhase = cyclicFrame
   \<and> fst (CreateTimeline smallUniverse noRefs onePhaseBody ''Earth'' planets
            (entry cyclicOrbitFrame None) ModifyObject)
       = Some (OrbitFrameNestedTooDeep ''Earth'')"
  by (simp add: timeline_defs CreateTimelineFromArray_def CreateTimelinePhase_def
        example_defs more_example_defs)

subsection \<open>An empty phase array\<close>

text \<open>Claim C9 fails for a \<^verbatim>\<open>Timeline\<close> array with no entries: in a system without a
  primary body, whatever else the entry holds, \<^verbatim>\<open>CreateTimeline\<close> returns true and
  installs a timeline with no phase.\<close>

theorem empty_array_installs_empty_timeline:
  "CreateTimeline universe refs body name \<lparr>getStar = star, getPrimaryBody = None\<rparr>
     (entry h (Some (ArrayType []))) disposition
     = (None, setTimeline body [], refs)
   \<and> phaseCount (getTimeline (setTimeline body [])) = 0"
  by (simp add: CreateTimeline_def GetOrbitBarycenter_def parentFrameTreeOf_def
        CreateTimelineFromArray_def entry_def setTimeline_def phaseCount_def Let_def)

subsection \<open>Further facts about what is installed and what is kept\<close>

text \<open>A timeline assembled from an array has one phase for each entry of the array, so
  only the empty array gives an empty timeline.\<close>

lemma loop_phase_count:
  "fst (CreateTimelineFromArray_loop refs d i prev tml vs) = Inr res \<Longrightarrow>
   length res = length tml + length vs"
proof (induction vs arbitrary: refs i prev tml)
  case Nil
  then show ?case by simp
next
  case (Cons v rest)
  from Cons.prems obtain pd where pd: "getHash v = Some pd"
    by (auto split: option.splits)
  from Cons.prems pd obtain ph refs1 where
    ph: "CreateTimelinePhase refs pd d (i = 0) (rest = []) prev = (Inr ph, refs1)"
    by (auto simp: Let_def split: prod.splits sum.splits)
  from Cons.prems have
    "fst (CreateTimelineFromArray_loop refs1 d (i + 1) (endTime ph) (appendPhase tml ph) rest)
       = Inr res"
    unfolding loop_step_ok[OF pd ph] .
  from Cons.IH[OF this] show ?case by (simp add: appendPhase_def)
qed

lemma timeline_from_array_phase_count:
  assumes "fst (CreateTimelineFromArray refs timelineArray defaultFrame) = Inr timeline"
  shows "phaseCount timeline = length timelineArray"
  using loop_phase_count[OF assms[unfolded CreateTimelineFromArray_def]]
  by (simp add: phaseCount_def)

text \<open>The construction from the fields of the object leaves the body as it was or with a
  timeline of exactly one phase.\<close>

lemma fields_install_one_phase:
  "fst (snd (CreateTimeline_fields universe refs body pft planetData disposition)) = body
   \<or> (\<exists>ph. fst (snd (CreateTimeline_fields universe refs body pft planetData disposition))
              = setTimeline body [ph])"
  by (rule fields_shape)
     (auto simp: CreateTimeline_install_def Let_def appendPhase_def)

text \<open>The return for a missing orbit in the construction from the fields of the object
  releases nothing: the reference to an orbit frame created just before is still held,
  where \<^verbatim>\<open>CreateTimelinePhase\<close> releases it.\<close>

lemma fields_missing_orbit_keeps_reference:
  "CreateTimeline smallUniverse noRefs newBody ''Probe'' planets
     (entry (noFields\<lparr>OrbitFrame := Some (FrameDefinition heliocentric)\<rparr>) None) AddObject
     = (Some (NoValidOrbit []), newBody, addRef noRefs heliocentric)
   \<and> addRef noRefs heliocentric heliocentric = 1
   \<and> CreateTimelinePhase noRefs (noFields\<lparr>OrbitFrame := Some (FrameDefinition heliocentric)\<rparr>)
         sunFrame True True NegInfinity
       = (Inl MissingOrbit, noRefs)"
proof (intro conjI)
  show "CreateTimeline smallUniverse noRefs newBody ''Probe'' planets
     (entry (noFields\<lparr>OrbitFrame := Some (FrameDefinition heliocentric)\<rparr>) None) AddObject
     = (Some (NoValidOrbit []), newBody, addRef noRefs heliocentric)"
    by (simp add: timeline_defs example_defs more_example_defs)
  show "addRef noRefs heliocentric heliocentric = 1"
    by (simp add: addRef_def noRefs_def)
  have "fst (CreateTimelinePhase noRefs
               (noFields\<lparr>OrbitFrame := Some (FrameDefinition heliocentric)\<rparr>)
               sunFrame True True NegInfinity) = Inl MissingOrbit"
    by (simp add: builder_defs example_defs more_example_defs)
  then show "CreateTimelinePhase noRefs
               (noFields\<lparr>OrbitFrame := Some (FrameDefinition heliocentric)\<rparr>)
               sunFrame True True NegInfinity
             = (Inl MissingOrbit, noRefs)"
    using CreateTimelinePhase_failure_refs by (metis prod.collapse)
qed

text \<open>A \<^verbatim>\<open>Beginning\<close> among the fields of the object keeps its \<^verbatim>\<open>Ending\<close> from being read:
  the phase installed for a new body ends at infinity.\<close>

lemma fields_beginning_hides_ending:
  assumes "Beginning planetData = Some b" and "Ending planetData = Some e"
      and "CreateOrbit planetData (centeredOnStar (resolvedOrbitFrame (OrbitFrame planetData)
             (getDefaultReferenceFrame pft))) = Some orb"
  shows "\<exists>ph. getTimeline (fst (snd (CreateTimeline_fields universe refs body pft planetData
                                      AddObject))) = [ph]
           \<and> startTime ph = b \<and> endTime ph = Infinity"
  using assms
  by (cases "OrbitFrame planetData" rule: frame_field_cases;
      cases "BodyFrame planetData" rule: frame_field_cases)
     (simp_all add: fields_core resolvedOrbitFrame_def centeredOnStar_def)

end
